theory Spec2Isabelle
  imports Complex_Main
begin

section \<open>Go values: curve identifiers, dynamic types, panics\<close>

text \<open>
  Modelled from the spec: \<^verbatim>\<open>ecc.ID\<close> is declared in gnark-crypto, not in this repository.
  It is a small unsigned integer type with one named constant per curve. The seven
  constants the backend switches on are constructors (Go rejects a switch with two equal
  constant cases, so they are pairwise distinct); every other value of the type, the
  zero value \<^verbatim>\<open>ecc.UNKNOWN\<close> included, is \<open>OtherID n\<close>.
\<close>

datatype ID =
    BN254 | BLS12_377 | BLS12_381 | BW6_761 | BLS24_317 | BLS24_315 | BW6_633
  | OtherID nat

text \<open>
  The seven families of curve-specific packages that \<^verbatim>\<open>plonk.go\<close> imports
  (\<^verbatim>\<open>cs_bn254\<close>, \<^verbatim>\<open>plonk_bn254\<close>, \<^verbatim>\<open>fr_bn254\<close>, \<^verbatim>\<open>kzg_bn254\<close>, and so on).
\<close>

datatype curve = bn254 | bls12_377 | bls12_381 | bw6_761 | bls24_317 | bls24_315 | bw6_633

text \<open>
  The dynamic (concrete) type of a Go interface value. The first six constructors are
  the curve-specific types the source names: \<^verbatim>\<open>*cs_X.SparseR1CS\<close>,
  \<^verbatim>\<open>*plonk_X.ProvingKey\<close>, \<^verbatim>\<open>*plonk_X.VerifyingKey\<close>, \<^verbatim>\<open>*plonk_X.Proof\<close>,
  \<^verbatim>\<open>*kzg_X.SRS\<close> and \<^verbatim>\<open>fr_X.Vector\<close>. Any other concrete type is \<open>T_Other\<close>.
\<close>

datatype go_type =
    T_SparseR1CS curve
  | T_ProvingKey curve
  | T_VerifyingKey curve
  | T_Proof curve
  | T_SRS curve
  | T_Vector curve
  | T_Other string

text \<open>An interface value: nil, or a dynamic type with the value it holds.\<close>

datatype 'a iface = NilIface | Iface go_type 'a

text \<open>A pointer: nil, or the address of a value (the value stands for the pointee).\<close>

datatype 'a ptr = NilPtr | Ptr 'a

text \<open>
  A Go call either panics or returns: \<open>Inl\<close> is the panic, \<open>Inr\<close> the returned value.
  \<open>PanicMsg\<close> is an explicit \<^verbatim>\<open>panic("...")\<close>; the other two are the run-time panics of a
  failed single-value type assertion \<^verbatim>\<open>x.(T)\<close> and of a nil dereference.
\<close>

datatype panic = PanicMsg string | TypeAssertionError | NilDereference

text \<open>
  Go's \<^verbatim>\<open>error\<close> results: \<open>None\<close> is \<^verbatim>\<open>nil\<close>. \<^verbatim>\<open>witness.ErrInvalidWitness\<close> is the
  sentinel the source returns; any other error value is \<open>OtherError\<close>.
\<close>

datatype error = ErrInvalidWitness | OtherError string

text \<open>Sequencing: the first failure (\<open>Inl\<close>) ends the computation.\<close>

definition bindR :: "'e + 'a \<Rightarrow> ('a \<Rightarrow> 'e + 'b) \<Rightarrow> 'e + 'b" where
  "bindR m f = (case m of Inl e \<Rightarrow> Inl e | Inr x \<Rightarrow> f x)"

text \<open>\<^verbatim>\<open>x.(T)\<close>: panics unless the dynamic type of \<open>x\<close> is \<open>T\<close>.\<close>

definition type_assert :: "go_type \<Rightarrow> 'a iface \<Rightarrow> panic + 'a" where
  "type_assert T x =
     (case x of
        NilIface \<Rightarrow> Inl TypeAssertionError
      | Iface U v \<Rightarrow> if U = T then Inr v else Inl TypeAssertionError)"

text \<open>\<^verbatim>\<open>v, ok := x.(T)\<close>: never panics; \<open>None\<close> is \<^verbatim>\<open>ok == false\<close>.\<close>

definition type_assert_ok :: "go_type \<Rightarrow> 'a iface \<Rightarrow> 'a option" where
  "type_assert_ok T x =
     (case x of
        NilIface \<Rightarrow> None
      | Iface U v \<Rightarrow> if U = T then Some v else None)"

text \<open>\<^verbatim>\<open>*p\<close>: panics on a nil pointer.\<close>

definition deref :: "'a ptr \<Rightarrow> panic + 'a" where
  "deref p = (case p of NilPtr \<Rightarrow> Inl NilDereference | Ptr v \<Rightarrow> Inr v)"

text \<open>The dynamic type of an interface value, \<open>None\<close> for the nil interface.\<close>

definition dyn_type :: "'a iface \<Rightarrow> go_type option" where
  "dyn_type x = (case x of NilIface \<Rightarrow> None | Iface U v \<Rightarrow> Some U)"

text \<open>
  Modelled from the spec: \<^verbatim>\<open>witness.Witness\<close> is declared in \<^verbatim>\<open>backend/witness\<close>, which is
  not among the sources. It is an interface whose method \<^verbatim>\<open>Vector()\<close> returns the
  underlying vector as an untyped value. A nil witness has no vector: calling the method
  on it is a nil dereference.
\<close>

datatype 'w Witness = NilWitness | WitnessOf "'w iface"

definition Vector :: "'w Witness \<Rightarrow> panic + 'w iface" where
  "Vector w = (case w of NilWitness \<Rightarrow> Inl NilDereference | WitnessOf v \<Rightarrow> Inr v)"

section \<open>backend/plonk/plonk.go\<close>

text \<open>
  The curve-specific routines \<^verbatim>\<open>plonk_X.Setup\<close>, \<^verbatim>\<open>plonk_X.Prove\<close> and
  \<^verbatim>\<open>plonk_X.Verify\<close> live in other packages. They are parameters of the model, indexed
  by the curve package, and may themselves panic.
\<close>

text \<open>\<^verbatim>\<open>Setup\<close>: a type switch on \<open>ccs\<close>, cases in the order of the source.\<close>

definition Setup ::
  "(curve \<Rightarrow> 'cs ptr \<Rightarrow> 'srs \<Rightarrow> panic + ('pk ptr \<times> 'vk ptr \<times> error option)) \<Rightarrow>
   'cs ptr iface \<Rightarrow> 'srs ptr iface \<Rightarrow>
   panic + ('pk ptr iface \<times> 'vk ptr iface \<times> error option)" where
  "Setup plonk_Setup ccs kzgSrs =
     (case ccs of
        Iface (T_SparseR1CS bn254) tccs \<Rightarrow>
          bindR (type_assert (T_SRS bn254) kzgSrs) (\<lambda>p. bindR (deref p) (\<lambda>srs.
          bindR (plonk_Setup bn254 tccs srs) (\<lambda>(pk, vk, err).
            Inr (Iface (T_ProvingKey bn254) pk, Iface (T_VerifyingKey bn254) vk, err))))
      | Iface (T_SparseR1CS bls12_381) tccs \<Rightarrow>
          bindR (type_assert (T_SRS bls12_381) kzgSrs) (\<lambda>p. bindR (deref p) (\<lambda>srs.
          bindR (plonk_Setup bls12_381 tccs srs) (\<lambda>(pk, vk, err).
            Inr (Iface (T_ProvingKey bls12_381) pk, Iface (T_VerifyingKey bls12_381) vk, err))))
      | Iface (T_SparseR1CS bls12_377) tccs \<Rightarrow>
          bindR (type_assert (T_SRS bls12_377) kzgSrs) (\<lambda>p. bindR (deref p) (\<lambda>srs.
          bindR (plonk_Setup bls12_377 tccs srs) (\<lambda>(pk, vk, err).
            Inr (Iface (T_ProvingKey bls12_377) pk, Iface (T_VerifyingKey bls12_377) vk, err))))
      | Iface (T_SparseR1CS bw6_761) tccs \<Rightarrow>
          bindR (type_assert (T_SRS bw6_761) kzgSrs) (\<lambda>p. bindR (deref p) (\<lambda>srs.
          bindR (plonk_Setup bw6_761 tccs srs) (\<lambda>(pk, vk, err).
            Inr (Iface (T_ProvingKey bw6_761) pk, Iface (T_VerifyingKey bw6_761) vk, err))))
      | Iface (T_SparseR1CS bls24_317) tccs \<Rightarrow>
          bindR (type_assert (T_SRS bls24_317) kzgSrs) (\<lambda>p. bindR (deref p) (\<lambda>srs.
          bindR (plonk_Setup bls24_317 tccs srs) (\<lambda>(pk, vk, err).
            Inr (Iface (T_ProvingKey bls24_317) pk, Iface (T_VerifyingKey bls24_317) vk, err))))
      | Iface (T_SparseR1CS bls24_315) tccs \<Rightarrow>
          bindR (type_assert (T_SRS bls24_315) kzgSrs) (\<lambda>p. bindR (deref p) (\<lambda>srs.
          bindR (plonk_Setup bls24_315 tccs srs) (\<lambda>(pk, vk, err).
            Inr (Iface (T_ProvingKey bls24_315) pk, Iface (T_VerifyingKey bls24_315) vk, err))))
      | Iface (T_SparseR1CS bw6_633) tccs \<Rightarrow>
          bindR (type_assert (T_SRS bw6_633) kzgSrs) (\<lambda>p. bindR (deref p) (\<lambda>srs.
          bindR (plonk_Setup bw6_633 tccs srs) (\<lambda>(pk, vk, err).
            Inr (Iface (T_ProvingKey bw6_633) pk, Iface (T_VerifyingKey bw6_633) vk, err))))
      | _ \<Rightarrow> Inl (PanicMsg ''unrecognized SparseR1CS curve type''))"

text \<open>\<^verbatim>\<open>Prove\<close>: the same switch; the proving key is asserted to the curve's type.\<close>

definition Prove ::
  "(curve \<Rightarrow> 'cs ptr \<Rightarrow> 'pk ptr \<Rightarrow> 'w \<Rightarrow> 'o \<Rightarrow> panic + ('pr ptr \<times> error option)) \<Rightarrow>
   'cs ptr iface \<Rightarrow> 'pk ptr iface \<Rightarrow> 'w \<Rightarrow> 'o \<Rightarrow>
   panic + ('pr ptr iface \<times> error option)" where
  "Prove plonk_Prove ccs pk fullWitness opts =
     (case ccs of
        Iface (T_SparseR1CS bn254) tccs \<Rightarrow>
          bindR (type_assert (T_ProvingKey bn254) pk) (\<lambda>tpk.
          bindR (plonk_Prove bn254 tccs tpk fullWitness opts) (\<lambda>(prf, err).
            Inr (Iface (T_Proof bn254) prf, err)))
      | Iface (T_SparseR1CS bls12_381) tccs \<Rightarrow>
          bindR (type_assert (T_ProvingKey bls12_381) pk) (\<lambda>tpk.
          bindR (plonk_Prove bls12_381 tccs tpk fullWitness opts) (\<lambda>(prf, err).
            Inr (Iface (T_Proof bls12_381) prf, err)))
      | Iface (T_SparseR1CS bls12_377) tccs \<Rightarrow>
          bindR (type_assert (T_ProvingKey bls12_377) pk) (\<lambda>tpk.
          bindR (plonk_Prove bls12_377 tccs tpk fullWitness opts) (\<lambda>(prf, err).
            Inr (Iface (T_Proof bls12_377) prf, err)))
      | Iface (T_SparseR1CS bw6_761) tccs \<Rightarrow>
          bindR (type_assert (T_ProvingKey bw6_761) pk) (\<lambda>tpk.
          bindR (plonk_Prove bw6_761 tccs tpk fullWitness opts) (\<lambda>(prf, err).
            Inr (Iface (T_Proof bw6_761) prf, err)))
      | Iface (T_SparseR1CS bw6_633) tccs \<Rightarrow>
          bindR (type_assert (T_ProvingKey bw6_633) pk) (\<lambda>tpk.
          bindR (plonk_Prove bw6_633 tccs tpk fullWitness opts) (\<lambda>(prf, err).
            Inr (Iface (T_Proof bw6_633) prf, err)))
      | Iface (T_SparseR1CS bls24_317) tccs \<Rightarrow>
          bindR (type_assert (T_ProvingKey bls24_317) pk) (\<lambda>tpk.
          bindR (plonk_Prove bls24_317 tccs tpk fullWitness opts) (\<lambda>(prf, err).
            Inr (Iface (T_Proof bls24_317) prf, err)))
      | Iface (T_SparseR1CS bls24_315) tccs \<Rightarrow>
          bindR (type_assert (T_ProvingKey bls24_315) pk) (\<lambda>tpk.
          bindR (plonk_Prove bls24_315 tccs tpk fullWitness opts) (\<lambda>(prf, err).
            Inr (Iface (T_Proof bls24_315) prf, err)))
      | _ \<Rightarrow> Inl (PanicMsg ''unrecognized SparseR1CS curve type''))"

text \<open>
  \<^verbatim>\<open>Verify\<close>: a type switch on \<open>proof\<close>. In each case the witness vector is tested with
  the two-value assertion first; only then is the verifying key asserted (single-value).
\<close>

definition Verify ::
  "(curve \<Rightarrow> 'pr ptr \<Rightarrow> 'vk ptr \<Rightarrow> 'w \<Rightarrow> panic + error option) \<Rightarrow>
   'pr ptr iface \<Rightarrow> 'vk ptr iface \<Rightarrow> 'w Witness \<Rightarrow> panic + error option" where
  "Verify plonk_Verify proof vk publicWitness =
     (case proof of
        Iface (T_Proof bn254) prf \<Rightarrow>
          bindR (Vector publicWitness) (\<lambda>v.
            case type_assert_ok (T_Vector bn254) v of
              None \<Rightarrow> Inr (Some ErrInvalidWitness)
            | Some w \<Rightarrow> bindR (type_assert (T_VerifyingKey bn254) vk) (\<lambda>tvk.
                plonk_Verify bn254 prf tvk w))
      | Iface (T_Proof bls12_381) prf \<Rightarrow>
          bindR (Vector publicWitness) (\<lambda>v.
            case type_assert_ok (T_Vector bls12_381) v of
              None \<Rightarrow> Inr (Some ErrInvalidWitness)
            | Some w \<Rightarrow> bindR (type_assert (T_VerifyingKey bls12_381) vk) (\<lambda>tvk.
                plonk_Verify bls12_381 prf tvk w))
      | Iface (T_Proof bls12_377) prf \<Rightarrow>
          bindR (Vector publicWitness) (\<lambda>v.
            case type_assert_ok (T_Vector bls12_377) v of
              None \<Rightarrow> Inr (Some ErrInvalidWitness)
            | Some w \<Rightarrow> bindR (type_assert (T_VerifyingKey bls12_377) vk) (\<lambda>tvk.
                plonk_Verify bls12_377 prf tvk w))
      | Iface (T_Proof bw6_761) prf \<Rightarrow>
          bindR (Vector publicWitness) (\<lambda>v.
            case type_assert_ok (T_Vector bw6_761) v of
              None \<Rightarrow> Inr (Some ErrInvalidWitness)
            | Some w \<Rightarrow> bindR (type_assert (T_VerifyingKey bw6_761) vk) (\<lambda>tvk.
                plonk_Verify bw6_761 prf tvk w))
      | Iface (T_Proof bw6_633) prf \<Rightarrow>
          bindR (Vector publicWitness) (\<lambda>v.
            case type_assert_ok (T_Vector bw6_633) v of
              None \<Rightarrow> Inr (Some ErrInvalidWitness)
            | Some w \<Rightarrow> bindR (type_assert (T_VerifyingKey bw6_633) vk) (\<lambda>tvk.
                plonk_Verify bw6_633 prf tvk w))
      | Iface (T_Proof bls24_317) prf \<Rightarrow>
          bindR (Vector publicWitness) (\<lambda>v.
            case type_assert_ok (T_Vector bls24_317) v of
              None \<Rightarrow> Inr (Some ErrInvalidWitness)
            | Some w \<Rightarrow> bindR (type_assert (T_VerifyingKey bls24_317) vk) (\<lambda>tvk.
                plonk_Verify bls24_317 prf tvk w))
      | Iface (T_Proof bls24_315) prf \<Rightarrow>
          bindR (Vector publicWitness) (\<lambda>v.
            case type_assert_ok (T_Vector bls24_315) v of
              None \<Rightarrow> Inr (Some ErrInvalidWitness)
            | Some w \<Rightarrow> bindR (type_assert (T_VerifyingKey bls24_315) vk) (\<lambda>tvk.
                plonk_Verify bls24_315 prf tvk w))
      | _ \<Rightarrow> Inl (PanicMsg ''unrecognized proof type''))"

text \<open>
  The four factories. Each returns the address of a fresh zero value of the curve's
  struct type (\<^verbatim>\<open>&cs_bn254.SparseR1CS{}\<close>); the struct types are declared elsewhere, so
  the zero value is \<open>0\<close> of an arbitrary type of class \<open>zero\<close>.
\<close>

definition NewCS :: "ID \<Rightarrow> panic + ('s::zero) ptr iface" where
  "NewCS curveID =
     (case curveID of
        BN254 \<Rightarrow> Inr (Iface (T_SparseR1CS bn254) (Ptr 0))
      | BLS12_377 \<Rightarrow> Inr (Iface (T_SparseR1CS bls12_377) (Ptr 0))
      | BLS12_381 \<Rightarrow> Inr (Iface (T_SparseR1CS bls12_381) (Ptr 0))
      | BW6_761 \<Rightarrow> Inr (Iface (T_SparseR1CS bw6_761) (Ptr 0))
      | BLS24_317 \<Rightarrow> Inr (Iface (T_SparseR1CS bls24_317) (Ptr 0))
      | BLS24_315 \<Rightarrow> Inr (Iface (T_SparseR1CS bls24_315) (Ptr 0))
      | BW6_633 \<Rightarrow> Inr (Iface (T_SparseR1CS bw6_633) (Ptr 0))
      | _ \<Rightarrow> Inl (PanicMsg ''not implemented''))"

definition NewProvingKey :: "ID \<Rightarrow> panic + ('s::zero) ptr iface" where
  "NewProvingKey curveID =
     (case curveID of
        BN254 \<Rightarrow> Inr (Iface (T_ProvingKey bn254) (Ptr 0))
      | BLS12_377 \<Rightarrow> Inr (Iface (T_ProvingKey bls12_377) (Ptr 0))
      | BLS12_381 \<Rightarrow> Inr (Iface (T_ProvingKey bls12_381) (Ptr 0))
      | BW6_761 \<Rightarrow> Inr (Iface (T_ProvingKey bw6_761) (Ptr 0))
      | BLS24_317 \<Rightarrow> Inr (Iface (T_ProvingKey bls24_317) (Ptr 0))
      | BLS24_315 \<Rightarrow> Inr (Iface (T_ProvingKey bls24_315) (Ptr 0))
      | BW6_633 \<Rightarrow> Inr (Iface (T_ProvingKey bw6_633) (Ptr 0))
      | _ \<Rightarrow> Inl (PanicMsg ''not implemented''))"

definition NewProof :: "ID \<Rightarrow> panic + ('s::zero) ptr iface" where
  "NewProof curveID =
     (case curveID of
        BN254 \<Rightarrow> Inr (Iface (T_Proof bn254) (Ptr 0))
      | BLS12_377 \<Rightarrow> Inr (Iface (T_Proof bls12_377) (Ptr 0))
      | BLS12_381 \<Rightarrow> Inr (Iface (T_Proof bls12_381) (Ptr 0))
      | BW6_761 \<Rightarrow> Inr (Iface (T_Proof bw6_761) (Ptr 0))
      | BLS24_317 \<Rightarrow> Inr (Iface (T_Proof bls24_317) (Ptr 0))
      | BLS24_315 \<Rightarrow> Inr (Iface (T_Proof bls24_315) (Ptr 0))
      | BW6_633 \<Rightarrow> Inr (Iface (T_Proof bw6_633) (Ptr 0))
      | _ \<Rightarrow> Inl (PanicMsg ''not implemented''))"

definition NewVerifyingKey :: "ID \<Rightarrow> panic + ('s::zero) ptr iface" where
  "NewVerifyingKey curveID =
     (case curveID of
        BN254 \<Rightarrow> Inr (Iface (T_VerifyingKey bn254) (Ptr 0))
      | BLS12_377 \<Rightarrow> Inr (Iface (T_VerifyingKey bls12_377) (Ptr 0))
      | BLS12_381 \<Rightarrow> Inr (Iface (T_VerifyingKey bls12_381) (Ptr 0))
      | BW6_761 \<Rightarrow> Inr (Iface (T_VerifyingKey bw6_761) (Ptr 0))
      | BLS24_317 \<Rightarrow> Inr (Iface (T_VerifyingKey bls24_317) (Ptr 0))
      | BLS24_315 \<Rightarrow> Inr (Iface (T_VerifyingKey bls24_315) (Ptr 0))
      | BW6_633 \<Rightarrow> Inr (Iface (T_VerifyingKey bw6_633) (Ptr 0))
      | _ \<Rightarrow> Inl (PanicMsg ''not implemented''))"

section \<open>The constraint-system builder and its evaluation\<close>

text \<open>
  Modelled from the spec: \<^verbatim>\<open>frontend.ConstraintSystem\<close> and \<^verbatim>\<open>frontend.Variable\<close> are
  declared in package \<^verbatim>\<open>frontend\<close>, which is not among the sources. The spec describes
  the builder as an object into which gates are emitted, with the primitive operations
  \<^verbatim>\<open>add(terms...)\<close>, \<^verbatim>\<open>mul(a,b)\<close> and \<^verbatim>\<open>inverse(a)\<close>, each returning a fresh variable,
  and a variable as an opaque handle that carries no value. A variable is a named circuit
  input, the output wire of the gate with a given index, or a constant passed where a
  variable is expected (the round constants are \<^verbatim>\<open>big.Int\<close> values).
\<close>

datatype variable = Input string | Wire nat | Constant int

text \<open>
  One gate per call of a primitive. Subtraction and multiplication by a constant are the
  linear operations the extension-field gadget is described with.
\<close>

datatype gate =
    AddGate "variable list"
  | SubGate variable variable
  | ScalarMulGate int variable
  | MulGate variable variable
  | InverseGate variable

text \<open>
  The builder is the list of gates emitted so far, in order. A primitive appends its
  gate and returns the gate's output wire together with the updated builder.
\<close>

definition cs_Add :: "gate list \<Rightarrow> variable list \<Rightarrow> variable \<times> gate list" where
  "cs_Add cs terms = (Wire (length cs), cs @ [AddGate terms])"

definition cs_Sub :: "gate list \<Rightarrow> variable \<Rightarrow> variable \<Rightarrow> variable \<times> gate list" where
  "cs_Sub cs a b = (Wire (length cs), cs @ [SubGate a b])"

definition cs_ScalarMul :: "gate list \<Rightarrow> int \<Rightarrow> variable \<Rightarrow> variable \<times> gate list" where
  "cs_ScalarMul cs n a = (Wire (length cs), cs @ [ScalarMulGate n a])"

definition cs_Mul :: "gate list \<Rightarrow> variable \<Rightarrow> variable \<Rightarrow> variable \<times> gate list" where
  "cs_Mul cs a b = (Wire (length cs), cs @ [MulGate a b])"

definition cs_Inverse :: "gate list \<Rightarrow> variable \<Rightarrow> variable \<times> gate list" where
  "cs_Inverse cs a = (Wire (length cs), cs @ [InverseGate a])"

text \<open>
  Modelled from the spec: evaluating a constraint system on a witness assignment. The
  base field is any type of class \<open>field\<close>; an integer constant is read into it with
  \<open>of_int\<close>. The gates are solved in order, each giving the value of its output wire.
  The inversion gate is the one of the spec's section 4.2 and 7: the prover supplies the
  value \<open>r\<close> and the gate enforces \<open>a * r = 1\<close>, so inverting zero is a constraint that
  cannot be satisfied, reported when the system is evaluated. An input without an
  assigned value and a wire that no earlier gate defines are errors as well.
\<close>

datatype solve_error = Unsatisfied | Unassigned

fun value_of :: "(string \<rightharpoonup> 'f) \<Rightarrow> 'f list \<Rightarrow> variable \<Rightarrow> solve_error + ('f::field)" where
  "value_of inp ws (Input s) = (case inp s of None \<Rightarrow> Inl Unassigned | Some x \<Rightarrow> Inr x)"
| "value_of inp ws (Wire k) = (if k < length ws then Inr (ws ! k) else Inl Unassigned)"
| "value_of inp ws (Constant c) = Inr (of_int c)"

fun sum_values :: "(string \<rightharpoonup> 'f) \<Rightarrow> 'f list \<Rightarrow> variable list \<Rightarrow> solve_error + ('f::field)" where
  "sum_values inp ws [] = Inr 0"
| "sum_values inp ws (v # vs) =
     bindR (value_of inp ws v) (\<lambda>x. bindR (sum_values inp ws vs) (\<lambda>y. Inr (x + y)))"

fun eval_gate :: "(string \<rightharpoonup> 'f) \<Rightarrow> 'f list \<Rightarrow> gate \<Rightarrow> solve_error + ('f::field)" where
  "eval_gate inp ws (AddGate vs) = sum_values inp ws vs"
| "eval_gate inp ws (SubGate a b) =
     bindR (value_of inp ws a) (\<lambda>x. bindR (value_of inp ws b) (\<lambda>y. Inr (x - y)))"
| "eval_gate inp ws (ScalarMulGate n a) =
     bindR (value_of inp ws a) (\<lambda>x. Inr (of_int n * x))"
| "eval_gate inp ws (MulGate a b) =
     bindR (value_of inp ws a) (\<lambda>x. bindR (value_of inp ws b) (\<lambda>y. Inr (x * y)))"
| "eval_gate inp ws (InverseGate a) =
     bindR (value_of inp ws a) (\<lambda>x.
       let r = inverse x in if x * r = 1 then Inr r else Inl Unsatisfied)"

fun solve :: "(string \<rightharpoonup> 'f) \<Rightarrow> 'f list \<Rightarrow> gate list \<Rightarrow> solve_error + ('f::field) list" where
  "solve inp ws [] = Inr ws"
| "solve inp ws (g # gs) = bindR (eval_gate inp ws g) (\<lambda>x. solve inp (ws @ [x]) gs)"

text \<open>The value a variable takes when the whole system is evaluated on \<open>inp\<close>.\<close>

definition evaluate :: "(string \<rightharpoonup> 'f) \<Rightarrow> gate list \<Rightarrow> variable \<Rightarrow> solve_error + ('f::field)" where
  "evaluate inp cs v = bindR (solve inp [] cs) (\<lambda>ws. value_of inp ws v)"

section \<open>std/hash/mimc/encrypt.go\<close>

text \<open>
  The struct \<^verbatim>\<open>MiMC\<close> is declared in another file of the package; the source uses its
  fields \<^verbatim>\<open>params\<close> (a slice of \<^verbatim>\<open>big.Int\<close>) and \<^verbatim>\<open>id\<close>.
\<close>

record MiMC =
  params :: "int list"
  id_MiMC :: ID

text \<open>
  The constant derivation \<^verbatim>\<open>NewParams\<close> of the four \<^verbatim>\<open>fr/mimc\<close> packages and the
  conversion \<^verbatim>\<open>ToBigIntRegular\<close> of their field elements are external: parameters
  indexed by the curve package. Each constructor starts from the zero value \<^verbatim>\<open>MiMC{}\<close>
  (no constants, identifier 0), appends the converted constants in the order of the
  slice, and sets the identifier.
\<close>

definition newMimcBLS377 ::
  "(curve \<Rightarrow> string \<Rightarrow> 'e list) \<Rightarrow> (curve \<Rightarrow> 'e \<Rightarrow> int) \<Rightarrow> string \<Rightarrow> MiMC" where
  "newMimcBLS377 NewParams ToBigIntRegular seed =
     (let res = \<lparr>params = [], id_MiMC = OtherID 0\<rparr>;
          prms = NewParams bls12_377 seed;
          res = foldl (\<lambda>res v. res\<lparr>params := params res @ [ToBigIntRegular bls12_377 v]\<rparr>)
                  res prms
      in res\<lparr>id_MiMC := BLS12_377\<rparr>)"

definition newMimcBLS381 ::
  "(curve \<Rightarrow> string \<Rightarrow> 'e list) \<Rightarrow> (curve \<Rightarrow> 'e \<Rightarrow> int) \<Rightarrow> string \<Rightarrow> MiMC" where
  "newMimcBLS381 NewParams ToBigIntRegular seed =
     (let res = \<lparr>params = [], id_MiMC = OtherID 0\<rparr>;
          prms = NewParams bls12_381 seed;
          res = foldl (\<lambda>res v. res\<lparr>params := params res @ [ToBigIntRegular bls12_381 v]\<rparr>)
                  res prms
      in res\<lparr>id_MiMC := BLS12_381\<rparr>)"

definition newMimcBN256 ::
  "(curve \<Rightarrow> string \<Rightarrow> 'e list) \<Rightarrow> (curve \<Rightarrow> 'e \<Rightarrow> int) \<Rightarrow> string \<Rightarrow> MiMC" where
  "newMimcBN256 NewParams ToBigIntRegular seed =
     (let res = \<lparr>params = [], id_MiMC = OtherID 0\<rparr>;
          prms = NewParams bn254 seed;
          res = foldl (\<lambda>res v. res\<lparr>params := params res @ [ToBigIntRegular bn254 v]\<rparr>)
                  res prms
      in res\<lparr>id_MiMC := BN254\<rparr>)"

definition newMimcBW761 ::
  "(curve \<Rightarrow> string \<Rightarrow> 'e list) \<Rightarrow> (curve \<Rightarrow> 'e \<Rightarrow> int) \<Rightarrow> string \<Rightarrow> MiMC" where
  "newMimcBW761 NewParams ToBigIntRegular seed =
     (let res = \<lparr>params = [], id_MiMC = OtherID 0\<rparr>;
          prms = NewParams bw6_761 seed;
          res = foldl (\<lambda>res v. res\<lparr>params := params res @ [ToBigIntRegular bw6_761 v]\<rparr>)
                  res prms
      in res\<lparr>id_MiMC := BW6_761\<rparr>)"

text \<open>
  The encryption functions. The loop \<^verbatim>\<open>for i := 0; i < len(h.params); i++\<close> reads
  \<^verbatim>\<open>h.params[i]\<close> for every index in order: a recursion over the list, with the builder
  and the accumulator \<^verbatim>\<open>res\<close> passed along.
\<close>

fun encryptBN256_rounds ::
  "gate list \<Rightarrow> int list \<Rightarrow> variable \<Rightarrow> variable \<Rightarrow> variable \<times> gate list" where
  "encryptBN256_rounds cs [] res key = (res, cs)"
| "encryptBN256_rounds cs (c # rest) res key =
     (let (tmp, cs) = cs_Add cs [res, key, Constant c];
          (res, cs) = cs_Mul cs tmp tmp;
          (res, cs) = cs_Mul cs res res;
          (res, cs) = cs_Mul cs res tmp
      in encryptBN256_rounds cs rest res key)"

definition encryptBN256 ::
  "gate list \<Rightarrow> MiMC \<Rightarrow> variable \<Rightarrow> variable \<Rightarrow> variable \<times> gate list" where
  "encryptBN256 cs h message key =
     (let res = message;
          (res, cs) = encryptBN256_rounds cs (params h) res key;
          (res, cs) = cs_Add cs [res, key]
      in (res, cs))"

fun encryptBLS381_rounds ::
  "gate list \<Rightarrow> int list \<Rightarrow> variable \<Rightarrow> variable \<Rightarrow> variable \<times> gate list" where
  "encryptBLS381_rounds cs [] res key = (res, cs)"
| "encryptBLS381_rounds cs (c # rest) res key =
     (let (tmp, cs) = cs_Add cs [res, key, Constant c];
          (res, cs) = cs_Mul cs tmp tmp;
          (res, cs) = cs_Mul cs res res;
          (res, cs) = cs_Mul cs res tmp
      in encryptBLS381_rounds cs rest res key)"

definition encryptBLS381 ::
  "gate list \<Rightarrow> MiMC \<Rightarrow> variable \<Rightarrow> variable \<Rightarrow> variable \<times> gate list" where
  "encryptBLS381 cs h message key =
     (let res = message;
          (res, cs) = encryptBLS381_rounds cs (params h) res key;
          (res, cs) = cs_Add cs [res, key]
      in (res, cs))"

fun encryptBW761_rounds ::
  "gate list \<Rightarrow> int list \<Rightarrow> variable \<Rightarrow> variable \<Rightarrow> variable \<times> gate list" where
  "encryptBW761_rounds cs [] res key = (res, cs)"
| "encryptBW761_rounds cs (c # rest) res key =
     (let (tmp, cs) = cs_Add cs [res, key, Constant c];
          (res, cs) = cs_Mul cs tmp tmp;
          (res, cs) = cs_Mul cs res res;
          (res, cs) = cs_Mul cs res tmp
      in encryptBW761_rounds cs rest res key)"

definition encryptBW761 ::
  "gate list \<Rightarrow> MiMC \<Rightarrow> variable \<Rightarrow> variable \<Rightarrow> variable \<times> gate list" where
  "encryptBW761 cs h message key =
     (let res = message;
          (res, cs) = encryptBW761_rounds cs (params h) res key;
          (res, cs) = cs_Add cs [res, key]
      in (res, cs))"

fun encryptBLS377_rounds ::
  "gate list \<Rightarrow> int list \<Rightarrow> variable \<Rightarrow> variable \<Rightarrow> variable \<times> gate list" where
  "encryptBLS377_rounds cs [] res key = (res, cs)"
| "encryptBLS377_rounds cs (c # rest) res key =
     (let (tmp, cs) = cs_Add cs [res, Constant c, key];
          (res, cs) = cs_Inverse cs tmp
      in encryptBLS377_rounds cs rest res key)"

definition encryptBLS377 ::
  "gate list \<Rightarrow> MiMC \<Rightarrow> variable \<Rightarrow> variable \<Rightarrow> variable \<times> gate list" where
  "encryptBLS377 cs h message key =
     (let res = message;
          (res, cs) = encryptBLS377_rounds cs (params h) res key;
          (res, cs) = cs_Add cs [res, key]
      in (res, cs))"

text \<open>
  The two package-level tables and \<^verbatim>\<open>init\<close>, which allocates each with \<^verbatim>\<open>make\<close> and
  stores four entries in it, in the order of the source.
\<close>

record globals =
  encryptFuncs :: "ID \<rightharpoonup> (gate list \<Rightarrow> MiMC \<Rightarrow> variable \<Rightarrow> variable \<Rightarrow> variable \<times> gate list)"
  newMimc :: "ID \<rightharpoonup> (string \<Rightarrow> MiMC)"

definition init ::
  "(curve \<Rightarrow> string \<Rightarrow> 'e list) \<Rightarrow> (curve \<Rightarrow> 'e \<Rightarrow> int) \<Rightarrow> globals \<Rightarrow> globals" where
  "init NewParams ToBigIntRegular g =
     (let g = g\<lparr>encryptFuncs := Map.empty\<rparr>;
          g = g\<lparr>encryptFuncs := (encryptFuncs g)(BN254 \<mapsto> encryptBN256)\<rparr>;
          g = g\<lparr>encryptFuncs := (encryptFuncs g)(BLS12_381 \<mapsto> encryptBLS381)\<rparr>;
          g = g\<lparr>encryptFuncs := (encryptFuncs g)(BLS12_377 \<mapsto> encryptBLS377)\<rparr>;
          g = g\<lparr>encryptFuncs := (encryptFuncs g)(BW6_761 \<mapsto> encryptBW761)\<rparr>;
          g = g\<lparr>newMimc := Map.empty\<rparr>;
          g = g\<lparr>newMimc := (newMimc g)(BN254 \<mapsto> newMimcBN256 NewParams ToBigIntRegular)\<rparr>;
          g = g\<lparr>newMimc := (newMimc g)(BLS12_381 \<mapsto> newMimcBLS381 NewParams ToBigIntRegular)\<rparr>;
          g = g\<lparr>newMimc := (newMimc g)(BLS12_377 \<mapsto> newMimcBLS377 NewParams ToBigIntRegular)\<rparr>;
          g = g\<lparr>newMimc := (newMimc g)(BW6_761 \<mapsto> newMimcBW761 NewParams ToBigIntRegular)\<rparr>
      in g)"

section \<open>The quadratic extension gadget exercised by the field tests\<close>

text \<open>
  Modelled from the spec: the type \<^verbatim>\<open>Fp2Elmt\<close>, the type \<^verbatim>\<open>Extension\<close> and the methods
  \<^verbatim>\<open>Mul\<close> and \<^verbatim>\<open>Inverse\<close> are defined in package \<^verbatim>\<open>fields\<close> outside the sources; only
  their tests (\<^verbatim>\<open>TestMulFp2\<close>, \<^verbatim>\<open>TestInverseFp2\<close>) are present. The tests give the names:
  an element has the coordinates \<^verbatim>\<open>X\<close> and \<^verbatim>\<open>Y\<close>, the extension has the non-residue
  \<^verbatim>\<open>uSquare\<close>. An element stands for \<open>X + Y * g\<close> with \<open>g * g = uSquare\<close>.
\<close>

record Fp2Elmt =
  X :: variable
  Y :: variable

record Extension =
  uSquare :: int

text \<open>
  Modelled from the spec: multiplication with exactly three multiplication gates, for
  \<open>a0 * b0\<close>, \<open>a1 * b1\<close> and \<open>(a0 + a1) * (b0 + b1)\<close>; the cross term is
  \<open>(a0 + a1) * (b0 + b1) - a0 * b0 - a1 * b1\<close> and the first coordinate is
  \<open>a0 * b0 + n * a1 * b1\<close>.
\<close>

definition Fp2Elmt_Mul ::
  "gate list \<Rightarrow> Fp2Elmt \<Rightarrow> Fp2Elmt \<Rightarrow> Extension \<Rightarrow> Fp2Elmt \<times> gate list" where
  "Fp2Elmt_Mul cs e1 e2 ext =
     (let (ac, cs) = cs_Mul cs (X e1) (X e2);
          (bd, cs) = cs_Mul cs (Y e1) (Y e2);
          (l1, cs) = cs_Add cs [X e1, Y e1];
          (l2, cs) = cs_Add cs [X e2, Y e2];
          (u, cs) = cs_Mul cs l1 l2;
          (t, cs) = cs_Sub cs u ac;
          (y, cs) = cs_Sub cs t bd;
          (nbd, cs) = cs_ScalarMul cs (uSquare ext) bd;
          (x, cs) = cs_Add cs [ac, nbd]
      in (\<lparr>X = x, Y = y\<rparr>, cs))"

text \<open>
  Modelled from the spec: inversion computes the norm \<open>d = a0 * a0 - n * a1 * a1\<close> with
  two squarings, one multiplication by the constant and one subtraction, obtains the
  inverse of \<open>d\<close> from the inversion gate and returns \<open>(a0 / d, - a1 / d)\<close>; the negation
  is a linear gate.
\<close>

definition Fp2Elmt_Inverse ::
  "gate list \<Rightarrow> Fp2Elmt \<Rightarrow> Extension \<Rightarrow> Fp2Elmt \<times> gate list" where
  "Fp2Elmt_Inverse cs e1 ext =
     (let (t0, cs) = cs_Mul cs (X e1) (X e1);
          (t1, cs) = cs_Mul cs (Y e1) (Y e1);
          (t1n, cs) = cs_ScalarMul cs (uSquare ext) t1;
          (d, cs) = cs_Sub cs t0 t1n;
          (dinv, cs) = cs_Inverse cs d;
          (x, cs) = cs_Mul cs (X e1) dinv;
          (na1, cs) = cs_Sub cs (Constant 0) (Y e1);
          (y, cs) = cs_Mul cs na1 dinv
      in (\<lparr>X = x, Y = y\<rparr>, cs))"

section \<open>Reference descriptions of the encryption circuits\<close>

text \<open>
  The gate pattern and the round function as the specification words them, to compare
  the source functions with. In the fifth-power policy a round at wire offset \<open>n\<close> is one
  addition gate for \<open>t = acc + key + c\<close>, then \<open>t * t\<close>, then the square of that, then
  the product of the fourth power with \<open>t\<close>; its last wire is the next accumulator.
  After the last round one more addition gate adds the key.
\<close>

fun is_AddGate :: "gate \<Rightarrow> bool" where
  "is_AddGate (AddGate vs) = True"
| "is_AddGate g = False"

fun is_MulGate :: "gate \<Rightarrow> bool" where
  "is_MulGate (MulGate a b) = True"
| "is_MulGate g = False"

fun is_InverseGate :: "gate \<Rightarrow> bool" where
  "is_InverseGate (InverseGate a) = True"
| "is_InverseGate g = False"

definition pow5_round_gates :: "nat \<Rightarrow> variable \<Rightarrow> variable \<Rightarrow> int \<Rightarrow> gate list" where
  "pow5_round_gates n acc key c =
     [AddGate [acc, key, Constant c],
      MulGate (Wire n) (Wire n),
      MulGate (Wire (n + 1)) (Wire (n + 1)),
      MulGate (Wire (n + 2)) (Wire n)]"

fun pow5_rounds_gates ::
  "nat \<Rightarrow> variable \<Rightarrow> variable \<Rightarrow> int list \<Rightarrow> variable \<times> gate list" where
  "pow5_rounds_gates n acc key [] = (acc, [])"
| "pow5_rounds_gates n acc key (c # rest) =
     (let (r, gs) = pow5_rounds_gates (n + 4) (Wire (n + 3)) key rest
      in (r, pow5_round_gates n acc key c @ gs))"

definition pow5_gates ::
  "nat \<Rightarrow> variable \<Rightarrow> variable \<Rightarrow> int list \<Rightarrow> variable \<times> gate list" where
  "pow5_gates n message key cs =
     (let (acc, gs) = pow5_rounds_gates n message key cs
      in (Wire (n + length gs), gs @ [AddGate [acc, key]]))"

text \<open>The permutation computed directly over the field, without a circuit.\<close>

definition pow5_native :: "'f::field \<Rightarrow> 'f \<Rightarrow> int list \<Rightarrow> 'f" where
  "pow5_native m k cs = foldl (\<lambda>acc c. (acc + k + of_int c) ^ 5) m cs + k"

text \<open>
  In the inverse policy a round at wire offset \<open>n\<close> is one addition gate for
  \<open>t = acc + c + key\<close> and one inversion gate on it. The round function over the field
  follows the inversion gate: it has no value when \<open>t = 0\<close>.
\<close>

definition inv_round_gates :: "nat \<Rightarrow> variable \<Rightarrow> variable \<Rightarrow> int \<Rightarrow> gate list" where
  "inv_round_gates n acc key c = [AddGate [acc, Constant c, key], InverseGate (Wire n)]"

fun inv_rounds_gates ::
  "nat \<Rightarrow> variable \<Rightarrow> variable \<Rightarrow> int list \<Rightarrow> variable \<times> gate list" where
  "inv_rounds_gates n acc key [] = (acc, [])"
| "inv_rounds_gates n acc key (c # rest) =
     (let (r, gs) = inv_rounds_gates (n + 2) (Wire (n + 1)) key rest
      in (r, inv_round_gates n acc key c @ gs))"

definition inv_gates ::
  "nat \<Rightarrow> variable \<Rightarrow> variable \<Rightarrow> int list \<Rightarrow> variable \<times> gate list" where
  "inv_gates n message key cs =
     (let (acc, gs) = inv_rounds_gates n message key cs
      in (Wire (n + length gs), gs @ [AddGate [acc, key]]))"

fun inv_rounds_native :: "'f::field \<Rightarrow> 'f \<Rightarrow> int list \<Rightarrow> solve_error + 'f" where
  "inv_rounds_native k acc [] = Inr acc"
| "inv_rounds_native k acc (c # rest) =
     (let t = acc + of_int c + k
      in if t = 0 then Inl Unsatisfied else inv_rounds_native k (inverse t) rest)"

definition inv_native :: "'f::field \<Rightarrow> 'f \<Rightarrow> int list \<Rightarrow> solve_error + 'f" where
  "inv_native m k cs = bindR (inv_rounds_native k m cs) (\<lambda>r. Inr (r + k))"

section \<open>The package as a state machine\<close>

text \<open>
  Go runs \<^verbatim>\<open>init\<close> once, before any other code of the package, and no code can call it.
  What runs afterwards is any sequence of calls of the other eight functions of the
  file. The state is the pair of the package-level tables and the builder the calls
  write to. None of the eight functions assigns to \<^verbatim>\<open>encryptFuncs\<close> or \<^verbatim>\<open>newMimc\<close>: the
  constructors only return a value, the encryption functions only append to the builder.
\<close>

datatype call =
    Call_newMimcBLS377 string
  | Call_newMimcBLS381 string
  | Call_newMimcBN256 string
  | Call_newMimcBW761 string
  | Call_encryptBN256 MiMC variable variable
  | Call_encryptBLS381 MiMC variable variable
  | Call_encryptBW761 MiMC variable variable
  | Call_encryptBLS377 MiMC variable variable

fun call_step :: "globals \<times> gate list \<Rightarrow> call \<Rightarrow> globals \<times> gate list" where
  "call_step (g, cs) (Call_newMimcBLS377 seed) = (g, cs)"
| "call_step (g, cs) (Call_newMimcBLS381 seed) = (g, cs)"
| "call_step (g, cs) (Call_newMimcBN256 seed) = (g, cs)"
| "call_step (g, cs) (Call_newMimcBW761 seed) = (g, cs)"
| "call_step (g, cs) (Call_encryptBN256 h message key) = (g, snd (encryptBN256 cs h message key))"
| "call_step (g, cs) (Call_encryptBLS381 h message key) = (g, snd (encryptBLS381 cs h message key))"
| "call_step (g, cs) (Call_encryptBW761 h message key) = (g, snd (encryptBW761 cs h message key))"
| "call_step (g, cs) (Call_encryptBLS377 h message key) = (g, snd (encryptBLS377 cs h message key))"

text \<open>The curve package whose \<^verbatim>\<open>NewParams\<close> each registered constructor calls.\<close>

definition mimc_package :: "ID \<rightharpoonup> curve" where
  "mimc_package = [BN254 \<mapsto> bn254, BLS12_381 \<mapsto> bls12_381, BLS12_377 \<mapsto> bls12_377,
                   BW6_761 \<mapsto> bw6_761]"

section \<open>Properties of the backend facade\<close>

text \<open>
  Claim C1. Whenever the proof's concrete type is one of the seven curve-specific proof
  types and the public witness has an underlying vector whose concrete type is not that
  curve's \<^verbatim>\<open>fr.Vector\<close>, \<^verbatim>\<open>Verify\<close> returns (it does not panic) and the value it returns
  is \<^verbatim>\<open>witness.ErrInvalidWitness\<close>. This holds for every verifying key, matching or not,
  and whatever the curve-specific verifier would do: neither is reached.
\<close>

theorem Verify_invalid_witness:
  assumes "dyn_type proof = Some (T_Proof c)"
      and "Vector publicWitness = Inr v"
      and "dyn_type v \<noteq> Some (T_Vector c)"
  shows "Verify plonk_Verify proof vk publicWitness = Inr (Some ErrInvalidWitness)"
  using assms
  by (cases c; cases "proof"; cases v)
     (simp_all add: Verify_def dyn_type_def bindR_def type_assert_ok_def)

theorem Verify_invalid_witness_witness:
  "dyn_type (Iface (T_Proof bn254) (Ptr (0::nat))) = Some (T_Proof bn254)
   \<and> Vector (WitnessOf (Iface (T_Vector bls12_381) [1::nat, 2]))
       = Inr (Iface (T_Vector bls12_381) [1, 2])
   \<and> dyn_type (Iface (T_Vector bls12_381) [1::nat, 2]) \<noteq> Some (T_Vector bn254)
   \<and> Verify (\<lambda>c p k w. Inr None) (Iface (T_Proof bn254) (Ptr (0::nat)))
        (Iface (T_VerifyingKey bls24_315) (Ptr (0::nat)))
        (WitnessOf (Iface (T_Vector bls12_381) [1::nat, 2]))
       = Inr (Some ErrInvalidWitness)"
  using Verify_invalid_witness
    [of "Iface (T_Proof bn254) (Ptr (0::nat))" bn254
        "WitnessOf (Iface (T_Vector bls12_381) [1::nat, 2])"
        "Iface (T_Vector bls12_381) [1::nat, 2]"
        "\<lambda>c p k w. Inr None" "Iface (T_VerifyingKey bls24_315) (Ptr (0::nat))"]
  by (simp add: dyn_type_def Vector_def)

text \<open>
  Claim C2. With a recognised curve but a companion artifact of another type the facade
  panics in an unchecked type assertion. In \<^verbatim>\<open>Setup\<close>: the constraint system is curve
  \<open>c\<close>'s and the reference string is anything but curve \<open>c\<close>'s \<^verbatim>\<open>*kzg.SRS\<close>. In
  \<^verbatim>\<open>Verify\<close>: proof and witness vector are curve \<open>c\<close>'s and the verifying key is another
  curve's; the result is the panic, not \<^verbatim>\<open>ErrInvalidWitness\<close>.
\<close>

theorem mismatched_companion_panics:
  "(dyn_type ccs = Some (T_SparseR1CS c) \<and> dyn_type kzgSrs \<noteq> Some (T_SRS c)
      \<longrightarrow> Setup plonk_Setup ccs kzgSrs = Inl TypeAssertionError)
   \<and> (dyn_type proof = Some (T_Proof c) \<and> Vector publicWitness = Inr v
        \<and> dyn_type v = Some (T_Vector c)
        \<and> dyn_type vk = Some (T_VerifyingKey c') \<and> c' \<noteq> c
      \<longrightarrow> Verify plonk_Verify proof vk publicWitness = Inl TypeAssertionError)"
proof (intro conjI impI)
  assume "dyn_type ccs = Some (T_SparseR1CS c) \<and> dyn_type kzgSrs \<noteq> Some (T_SRS c)"
  then show "Setup plonk_Setup ccs kzgSrs = Inl TypeAssertionError"
    by (cases c; cases ccs; cases kzgSrs)
       (simp_all add: Setup_def dyn_type_def bindR_def type_assert_def)
next
  assume "dyn_type proof = Some (T_Proof c) \<and> Vector publicWitness = Inr v
        \<and> dyn_type v = Some (T_Vector c)
        \<and> dyn_type vk = Some (T_VerifyingKey c') \<and> c' \<noteq> c"
  then show "Verify plonk_Verify proof vk publicWitness = Inl TypeAssertionError"
    by (cases c; cases "proof"; cases v; cases vk)
       (simp_all add: Verify_def dyn_type_def bindR_def type_assert_ok_def type_assert_def)
qed

theorem mismatched_companion_panics_witness:
  "Setup (\<lambda>c (tccs::nat ptr) (srs::nat). Inr (Ptr (0::nat), Ptr (0::nat), None))
      (Iface (T_SparseR1CS bn254) (Ptr 0)) (Iface (T_SRS bls12_381) (Ptr 0))
     = Inl TypeAssertionError
   \<and> Verify (\<lambda>c (p::nat ptr) (k::nat ptr) (w::nat list). Inr None)
      (Iface (T_Proof bw6_761) (Ptr 0)) (Iface (T_VerifyingKey bw6_633) (Ptr 0))
      (WitnessOf (Iface (T_Vector bw6_761) [1, 2]))
     = Inl TypeAssertionError"
  using mismatched_companion_panics
    [of "Iface (T_SparseR1CS bn254) (Ptr (0::nat))" bn254
        "Iface (T_SRS bls12_381) (Ptr (0::nat))"
        "\<lambda>c (tccs::nat ptr) (srs::nat). Inr (Ptr (0::nat), Ptr (0::nat), None)"
        "Iface (T_Proof bn254) (Ptr (0::nat))"
        "WitnessOf (Iface (T_Vector bn254) [1::nat, 2])"
        "Iface (T_Vector bn254) [1::nat, 2]"
        "Iface (T_VerifyingKey bw6_633) (Ptr (0::nat))" bw6_633
        "\<lambda>c (p::nat ptr) (k::nat ptr) (w::nat list). Inr None"]
    mismatched_companion_panics
    [of "Iface (T_SparseR1CS bw6_761) (Ptr (0::nat))" bw6_761
        "Iface (T_SRS bls12_381) (Ptr (0::nat))"
        "\<lambda>c (tccs::nat ptr) (srs::nat). Inr (Ptr (0::nat), Ptr (0::nat), None)"
        "Iface (T_Proof bw6_761) (Ptr (0::nat))"
        "WitnessOf (Iface (T_Vector bw6_761) [1::nat, 2])"
        "Iface (T_Vector bw6_761) [1::nat, 2]"
        "Iface (T_VerifyingKey bw6_633) (Ptr (0::nat))" bw6_633
        "\<lambda>c (p::nat ptr) (k::nat ptr) (w::nat list). Inr None"]
  by (simp add: dyn_type_def Vector_def)

text \<open>
  Claim C8. \<^verbatim>\<open>Setup\<close> and \<^verbatim>\<open>Prove\<close> panic with the message
  "unrecognized SparseR1CS curve type" when the constraint system is not one of the seven
  curve-specific \<^verbatim>\<open>*SparseR1CS\<close> types (the nil interface included), and \<^verbatim>\<open>Verify\<close> panics
  with "unrecognized proof type" when the proof is not one of the seven curve-specific
  proof types. The outcome is the panic, never a returned value, whatever the other
  arguments and the curve-specific routines are.
\<close>

theorem unrecognized_variant_panics:
  "((\<forall>c. dyn_type ccs \<noteq> Some (T_SparseR1CS c)) \<longrightarrow>
      Setup plonk_Setup ccs kzgSrs = Inl (PanicMsg ''unrecognized SparseR1CS curve type'')
    \<and> Prove plonk_Prove ccs pk fullWitness opts
        = Inl (PanicMsg ''unrecognized SparseR1CS curve type''))
  \<and> ((\<forall>c. dyn_type proof \<noteq> Some (T_Proof c)) \<longrightarrow>
      Verify plonk_Verify proof vk publicWitness = Inl (PanicMsg ''unrecognized proof type''))"
proof (intro conjI impI)
  assume h: "\<forall>c. dyn_type ccs \<noteq> Some (T_SparseR1CS c)"
  show "Setup plonk_Setup ccs kzgSrs = Inl (PanicMsg ''unrecognized SparseR1CS curve type'')"
  proof (cases ccs)
    case NilIface
    then show ?thesis by (simp add: Setup_def)
  next
    case (Iface U x)
    with h show ?thesis by (cases U) (simp_all add: Setup_def dyn_type_def)
  qed
  show "Prove plonk_Prove ccs pk fullWitness opts
          = Inl (PanicMsg ''unrecognized SparseR1CS curve type'')"
  proof (cases ccs)
    case NilIface
    then show ?thesis by (simp add: Prove_def)
  next
    case (Iface U x)
    with h show ?thesis by (cases U) (simp_all add: Prove_def dyn_type_def)
  qed
next
  assume h: "\<forall>c. dyn_type proof \<noteq> Some (T_Proof c)"
  show "Verify plonk_Verify proof vk publicWitness = Inl (PanicMsg ''unrecognized proof type'')"
  proof (cases "proof")
    case NilIface
    then show ?thesis by (simp add: Verify_def)
  next
    case (Iface U x)
    with h show ?thesis by (cases U) (simp_all add: Verify_def dyn_type_def)
  qed
qed

theorem unrecognized_variant_panics_witness:
  "Setup (\<lambda>c (tccs::nat ptr) (srs::nat). Inr (Ptr (0::nat), Ptr (0::nat), None))
      (Iface (T_Other ''*mock.ConstraintSystem'') (Ptr 0)) (Iface (T_SRS bn254) (Ptr 0))
     = Inl (PanicMsg ''unrecognized SparseR1CS curve type'')
   \<and> Prove (\<lambda>c (tccs::nat ptr) (tpk::nat ptr) (w::nat) (opts::nat). Inr (Ptr (0::nat), None))
      (Iface (T_Other ''*mock.ConstraintSystem'') (Ptr 0)) (Iface (T_ProvingKey bn254) (Ptr 0)) 0 0
     = Inl (PanicMsg ''unrecognized SparseR1CS curve type'')
   \<and> Verify (\<lambda>c (p::nat ptr) (k::nat ptr) (w::nat list). Inr None)
      NilIface (Iface (T_VerifyingKey bn254) (Ptr 0))
      (WitnessOf (Iface (T_Vector bn254) [1, 2]))
     = Inl (PanicMsg ''unrecognized proof type'')"
  using unrecognized_variant_panics
    [of "Iface (T_Other ''*mock.ConstraintSystem'') (Ptr (0::nat))"
        "\<lambda>c (tccs::nat ptr) (srs::nat). Inr (Ptr (0::nat), Ptr (0::nat), None)"
        "Iface (T_SRS bn254) (Ptr (0::nat))"
        "\<lambda>c (tccs::nat ptr) (tpk::nat ptr) (w::nat) (opts::nat). Inr (Ptr (0::nat), None)"
        "Iface (T_ProvingKey bn254) (Ptr (0::nat))" 0 0
        "NilIface"
        "\<lambda>c (p::nat ptr) (k::nat ptr) (w::nat list). Inr None"
        "Iface (T_VerifyingKey bn254) (Ptr (0::nat))"
        "WitnessOf (Iface (T_Vector bn254) [1::nat, 2])"]
  by (simp add: dyn_type_def)

text \<open>
  Claim C7. For each of the seven registered curve identifiers, \<^verbatim>\<open>NewCS\<close>,
  \<^verbatim>\<open>NewProvingKey\<close>, \<^verbatim>\<open>NewVerifyingKey\<close> and \<^verbatim>\<open>NewProof\<close> return a non-nil interface
  holding a non-nil pointer whose concrete type is that curve's \<^verbatim>\<open>SparseR1CS\<close>,
  \<^verbatim>\<open>ProvingKey\<close>, \<^verbatim>\<open>VerifyingKey\<close> and \<^verbatim>\<open>Proof\<close>; for every other identifier all four
  panic with "not implemented".
\<close>

theorem factories_dispatch:
  "NewCS BN254 = Inr (Iface (T_SparseR1CS bn254) (Ptr (0::'s::zero)))
   \<and> NewCS BLS12_377 = Inr (Iface (T_SparseR1CS bls12_377) (Ptr (0::'s)))
   \<and> NewCS BLS12_381 = Inr (Iface (T_SparseR1CS bls12_381) (Ptr (0::'s)))
   \<and> NewCS BW6_761 = Inr (Iface (T_SparseR1CS bw6_761) (Ptr (0::'s)))
   \<and> NewCS BLS24_317 = Inr (Iface (T_SparseR1CS bls24_317) (Ptr (0::'s)))
   \<and> NewCS BLS24_315 = Inr (Iface (T_SparseR1CS bls24_315) (Ptr (0::'s)))
   \<and> NewCS BW6_633 = Inr (Iface (T_SparseR1CS bw6_633) (Ptr (0::'s)))
   \<and> NewProvingKey BN254 = Inr (Iface (T_ProvingKey bn254) (Ptr (0::'s)))
   \<and> NewProvingKey BLS12_377 = Inr (Iface (T_ProvingKey bls12_377) (Ptr (0::'s)))
   \<and> NewProvingKey BLS12_381 = Inr (Iface (T_ProvingKey bls12_381) (Ptr (0::'s)))
   \<and> NewProvingKey BW6_761 = Inr (Iface (T_ProvingKey bw6_761) (Ptr (0::'s)))
   \<and> NewProvingKey BLS24_317 = Inr (Iface (T_ProvingKey bls24_317) (Ptr (0::'s)))
   \<and> NewProvingKey BLS24_315 = Inr (Iface (T_ProvingKey bls24_315) (Ptr (0::'s)))
   \<and> NewProvingKey BW6_633 = Inr (Iface (T_ProvingKey bw6_633) (Ptr (0::'s)))
   \<and> NewVerifyingKey BN254 = Inr (Iface (T_VerifyingKey bn254) (Ptr (0::'s)))
   \<and> NewVerifyingKey BLS12_377 = Inr (Iface (T_VerifyingKey bls12_377) (Ptr (0::'s)))
   \<and> NewVerifyingKey BLS12_381 = Inr (Iface (T_VerifyingKey bls12_381) (Ptr (0::'s)))
   \<and> NewVerifyingKey BW6_761 = Inr (Iface (T_VerifyingKey bw6_761) (Ptr (0::'s)))
   \<and> NewVerifyingKey BLS24_317 = Inr (Iface (T_VerifyingKey bls24_317) (Ptr (0::'s)))
   \<and> NewVerifyingKey BLS24_315 = Inr (Iface (T_VerifyingKey bls24_315) (Ptr (0::'s)))
   \<and> NewVerifyingKey BW6_633 = Inr (Iface (T_VerifyingKey bw6_633) (Ptr (0::'s)))
   \<and> NewProof BN254 = Inr (Iface (T_Proof bn254) (Ptr (0::'s)))
   \<and> NewProof BLS12_377 = Inr (Iface (T_Proof bls12_377) (Ptr (0::'s)))
   \<and> NewProof BLS12_381 = Inr (Iface (T_Proof bls12_381) (Ptr (0::'s)))
   \<and> NewProof BW6_761 = Inr (Iface (T_Proof bw6_761) (Ptr (0::'s)))
   \<and> NewProof BLS24_317 = Inr (Iface (T_Proof bls24_317) (Ptr (0::'s)))
   \<and> NewProof BLS24_315 = Inr (Iface (T_Proof bls24_315) (Ptr (0::'s)))
   \<and> NewProof BW6_633 = Inr (Iface (T_Proof bw6_633) (Ptr (0::'s)))
   \<and> (curveID \<notin> {BN254, BLS12_377, BLS12_381, BW6_761, BLS24_317, BLS24_315, BW6_633}
      \<longrightarrow> (NewCS curveID :: panic + 's ptr iface) = Inl (PanicMsg ''not implemented'')
        \<and> (NewProvingKey curveID :: panic + 's ptr iface) = Inl (PanicMsg ''not implemented'')
        \<and> (NewVerifyingKey curveID :: panic + 's ptr iface) = Inl (PanicMsg ''not implemented'')
        \<and> (NewProof curveID :: panic + 's ptr iface) = Inl (PanicMsg ''not implemented''))"
  by (cases curveID)
     (simp_all add: NewCS_def NewProvingKey_def NewVerifyingKey_def NewProof_def)

theorem factories_dispatch_witness:
  "OtherID 0 \<notin> {BN254, BLS12_377, BLS12_381, BW6_761, BLS24_317, BLS24_315, BW6_633}
   \<and> (NewCS (OtherID 0) :: panic + nat ptr iface) = Inl (PanicMsg ''not implemented'')
   \<and> (NewProvingKey (OtherID 0) :: panic + nat ptr iface) = Inl (PanicMsg ''not implemented'')
   \<and> (NewVerifyingKey (OtherID 0) :: panic + nat ptr iface) = Inl (PanicMsg ''not implemented'')
   \<and> (NewProof (OtherID 0) :: panic + nat ptr iface) = Inl (PanicMsg ''not implemented'')
   \<and> (NewProof BW6_633 :: panic + nat ptr iface) = Inr (Iface (T_Proof bw6_633) (Ptr 0))"
  using factories_dispatch
    [where curveID = "OtherID 0" and ?'s = nat]
  by simp

section \<open>Evaluation of appended gates\<close>

lemma bindR_Inr [simp]: "bindR (Inr x) f = f x"
  by (simp add: bindR_def)

lemma bindR_Inl [simp]: "bindR (Inl e) f = Inl e"
  by (simp add: bindR_def)

lemma solve_append:
  "solve inp ws (gs1 @ gs2) = bindR (solve inp ws gs1) (\<lambda>ws'. solve inp ws' gs2)"
proof (induction gs1 arbitrary: ws)
  case Nil
  show ?case by simp
next
  case (Cons g gs1)
  show ?case
    by (cases "eval_gate inp ws g") (simp_all add: Cons.IH)
qed

lemma solve_length:
  "solve inp ws gs = Inr ws' \<Longrightarrow> length ws' = length ws + length gs"
proof (induction gs arbitrary: ws)
  case Nil
  then show ?case by simp
next
  case (Cons g gs)
  then show ?case
    by (cases "eval_gate inp ws g") (auto dest: Cons.IH)
qed

lemma value_of_append:
  "value_of inp ws v = Inr x \<Longrightarrow> value_of inp (ws @ ys) v = Inr x"
  by (cases v) (auto simp: nth_append split: if_splits option.splits)

lemma encryptBN256_rounds_gates:
  "encryptBN256_rounds cs ps res key =
     (fst (pow5_rounds_gates (length cs) res key ps),
      cs @ snd (pow5_rounds_gates (length cs) res key ps))"
proof (induction ps arbitrary: cs res)
  case Nil
  show ?case by simp
next
  case (Cons c ps)
  show ?case
    by (simp add: cs_Add_def cs_Mul_def Cons.IH pow5_round_gates_def split_def Let_def
          eval_nat_numeral)
qed

lemma pow5_rounds_gates_length:
  "length (snd (pow5_rounds_gates n acc key ps)) = 4 * length ps"
  by (induction ps arbitrary: n acc) (simp_all add: split_def Let_def pow5_round_gates_def)

lemma pow5_rounds_gates_counts:
  "length (filter is_AddGate (snd (pow5_rounds_gates n acc key ps))) = length ps
   \<and> length (filter is_MulGate (snd (pow5_rounds_gates n acc key ps))) = 3 * length ps
   \<and> length (filter is_InverseGate (snd (pow5_rounds_gates n acc key ps))) = 0"
  by (induction ps arbitrary: n acc) (simp_all add: split_def Let_def pow5_round_gates_def)

lemma pow5_round_solve:
  assumes "value_of inp ws acc = Inr a" and "value_of inp ws key = Inr k"
  shows "solve inp ws (pow5_round_gates (length ws) acc key c)
          = Inr (ws @ [a + k + of_int c, (a + k + of_int c)^2, (a + k + of_int c)^4, (a + k + of_int c) ^ 5])"
  using assms
  by (simp add: pow5_round_gates_def nth_append power2_eq_square power4_eq_xxxx eval_nat_numeral algebra_simps)

lemma pow5_rounds_solve:
  assumes "value_of inp ws acc = Inr a" and "value_of inp ws key = Inr k"
  shows "\<exists>ws'. solve inp ws (snd (pow5_rounds_gates (length ws) acc key ps)) = Inr (ws @ ws')
           \<and> value_of inp (ws @ ws') (fst (pow5_rounds_gates (length ws) acc key ps))
               = Inr (foldl (\<lambda>acc c. (acc + k + of_int c) ^ 5) a ps)"
  using assms
proof (induction ps arbitrary: ws acc a)
  case Nil
  then show ?case by simp
next
  case (Cons c ps)
  let ?t = "a + k + of_int c"
  let ?ws1 = "ws @ [?t, ?t^2, ?t^4, ?t^5]"
  have s1: "solve inp ws (pow5_round_gates (length ws) acc key c) = Inr ?ws1"
    using Cons.prems by (rule pow5_round_solve)
  have acc1: "value_of inp ?ws1 (Wire (length ws + 3)) = Inr (?t^5)"
    by (simp add: nth_append)
  have key1: "value_of inp ?ws1 key = Inr k"
    using Cons.prems(2) by (rule value_of_append)
  have len1: "length ?ws1 = length ws + 4" by simp
  from Cons.IH [OF acc1 key1] obtain ws' where
    ih: "solve inp ?ws1 (snd (pow5_rounds_gates (length ?ws1) (Wire (length ws + 3)) key ps)) = Inr (?ws1 @ ws')"
        "value_of inp (?ws1 @ ws') (fst (pow5_rounds_gates (length ?ws1) (Wire (length ws + 3)) key ps))
           = Inr (foldl (\<lambda>acc c. (acc + k + of_int c) ^ 5) (?t^5) ps)"
    by blast
  show ?case
    apply (rule exI [of _ "[?t, ?t^2, ?t^4, ?t^5] @ ws'"])
    using ih s1 unfolding len1
    by (simp add: split_def Let_def solve_append)
qed


lemma encryptBLS381_rounds_gates:
  "encryptBLS381_rounds cs ps res key =
     (fst (pow5_rounds_gates (length cs) res key ps),
      cs @ snd (pow5_rounds_gates (length cs) res key ps))"
proof (induction ps arbitrary: cs res)
  case Nil
  show ?case by simp
next
  case (Cons c ps)
  show ?case
    by (simp add: cs_Add_def cs_Mul_def Cons.IH pow5_round_gates_def split_def Let_def
          eval_nat_numeral)
qed

lemma encryptBW761_rounds_gates:
  "encryptBW761_rounds cs ps res key =
     (fst (pow5_rounds_gates (length cs) res key ps),
      cs @ snd (pow5_rounds_gates (length cs) res key ps))"
proof (induction ps arbitrary: cs res)
  case Nil
  show ?case by simp
next
  case (Cons c ps)
  show ?case
    by (simp add: cs_Add_def cs_Mul_def Cons.IH pow5_round_gates_def split_def Let_def
          eval_nat_numeral)
qed

lemma encryptBN256_gates:
  "encryptBN256 cs h message key =
     (fst (pow5_gates (length cs) message key (params h)),
      cs @ snd (pow5_gates (length cs) message key (params h)))"
  by (simp add: encryptBN256_def encryptBN256_rounds_gates pow5_gates_def cs_Add_def
        split_def Let_def)

lemma encryptBLS381_gates:
  "encryptBLS381 cs h message key =
     (fst (pow5_gates (length cs) message key (params h)),
      cs @ snd (pow5_gates (length cs) message key (params h)))"
  by (simp add: encryptBLS381_def encryptBLS381_rounds_gates pow5_gates_def cs_Add_def
        split_def Let_def)

lemma encryptBW761_gates:
  "encryptBW761 cs h message key =
     (fst (pow5_gates (length cs) message key (params h)),
      cs @ snd (pow5_gates (length cs) message key (params h)))"
  by (simp add: encryptBW761_def encryptBW761_rounds_gates pow5_gates_def cs_Add_def
        split_def Let_def)

lemma pow5_gates_counts:
  "length (snd (pow5_gates n message key ps)) = 4 * length ps + 1
   \<and> length (filter is_AddGate (snd (pow5_gates n message key ps))) = length ps + 1
   \<and> length (filter is_MulGate (snd (pow5_gates n message key ps))) = 3 * length ps
   \<and> length (filter is_InverseGate (snd (pow5_gates n message key ps))) = 0"
  using pow5_rounds_gates_counts [of n message key ps]
        pow5_rounds_gates_length [of n message key ps]
  by (simp add: pow5_gates_def split_def Let_def)

lemma pow5_gates_evaluate:
  assumes cs: "solve inp [] cs = Inr ws"
      and m: "value_of inp ws message = Inr m"
      and k: "value_of inp ws key = Inr k"
  shows "evaluate inp (cs @ snd (pow5_gates (length cs) message key ps))
           (fst (pow5_gates (length cs) message key ps)) = Inr (pow5_native m k ps)"
proof -
  have len: "length ws = length cs"
    using solve_length [OF cs] by simp
  obtain ws' where
    r: "solve inp ws (snd (pow5_rounds_gates (length ws) message key ps)) = Inr (ws @ ws')"
    and v: "value_of inp (ws @ ws') (fst (pow5_rounds_gates (length ws) message key ps))
              = Inr (foldl (\<lambda>acc c. (acc + k + of_int c) ^ 5) m ps)"
    using pow5_rounds_solve [OF m k] by blast
  have len': "length ws' = length (snd (pow5_rounds_gates (length ws) message key ps))"
    using solve_length [OF r] by simp
  have k': "value_of inp (ws @ ws') key = Inr k"
    using k by (rule value_of_append)
  show ?thesis
    using cs r v k' len'
    by (simp add: evaluate_def pow5_gates_def split_def Let_def solve_append len [symmetric]
          pow5_native_def nth_append)
qed

text \<open>
  Claim C4. For each of the three fifth-power encryption functions (BN254, BLS12-381,
  BW6-761), every MiMC state \<open>h\<close> and every builder \<open>cs\<close>: the call appends to \<open>cs\<close>
  exactly the gates of \<open>pow5_gates\<close>, that is, for each round constant in order one
  addition gate for \<open>t = acc + key + c\<close> and three multiplication gates (\<open>t * t\<close>, its
  square, and the product with \<open>t\<close>), and after the last round one addition gate that adds
  the key; the variable returned is the output of that last gate. Evaluated on any
  assignment under which the earlier gates are satisfied and message and key have the
  values \<open>m\<close> and \<open>k\<close>, the returned variable has the value of the direct computation:
  \<open>(acc + k + c) ^ 5\<close> folded over the constants from \<open>m\<close>, plus \<open>k\<close>.
\<close>

theorem encrypt_pow5_rounds:
  assumes "enc = encryptBN256 \<or> enc = encryptBLS381 \<or> enc = encryptBW761"
      and "solve inp [] cs = Inr ws"
      and "value_of inp ws message = Inr m"
      and "value_of inp ws key = Inr k"
  shows "enc cs h message key =
           (fst (pow5_gates (length cs) message key (params h)),
            cs @ snd (pow5_gates (length cs) message key (params h)))
         \<and> length (filter is_AddGate (snd (pow5_gates (length cs) message key (params h))))
             = length (params h) + 1
         \<and> length (filter is_MulGate (snd (pow5_gates (length cs) message key (params h))))
             = 3 * length (params h)
         \<and> length (snd (pow5_gates (length cs) message key (params h)))
             = 4 * length (params h) + 1
         \<and> evaluate inp (snd (enc cs h message key)) (fst (enc cs h message key))
             = Inr (pow5_native m k (params h))"
proof -
  have g: "enc cs h message key =
           (fst (pow5_gates (length cs) message key (params h)),
            cs @ snd (pow5_gates (length cs) message key (params h)))"
    using assms(1) encryptBN256_gates encryptBLS381_gates encryptBW761_gates by blast
  show ?thesis
    using pow5_gates_counts [of "length cs" message key "params h"]
          pow5_gates_evaluate [OF assms(2-4), of "params h"]
    by (simp add: g)
qed

theorem encrypt_pow5_rounds_witness:
  "evaluate [''m'' \<mapsto> (1::rat), ''k'' \<mapsto> 2]
      (snd (encryptBN256 [] \<lparr>params = [7, 9], id_MiMC = BN254\<rparr> (Input ''m'') (Input ''k'')))
      (fst (encryptBN256 [] \<lparr>params = [7, 9], id_MiMC = BN254\<rparr> (Input ''m'') (Input ''k'')))
     = Inr (((1 + 2 + 7) ^ 5 + 2 + 9) ^ 5 + 2)
   \<and> encryptBN256 [] \<lparr>params = [7, 9], id_MiMC = BN254\<rparr> (Input ''m'') (Input ''k'')
     = (Wire 8,
        [AddGate [Input ''m'', Input ''k'', Constant 7],
         MulGate (Wire 0) (Wire 0), MulGate (Wire 1) (Wire 1), MulGate (Wire 2) (Wire 0),
         AddGate [Wire 3, Input ''k'', Constant 9],
         MulGate (Wire 4) (Wire 4), MulGate (Wire 5) (Wire 5), MulGate (Wire 6) (Wire 4),
         AddGate [Wire 7, Input ''k'']])"
proof -
  have p1: "solve [''m'' \<mapsto> (1::rat), ''k'' \<mapsto> 2] [] [] = Inr []"
    and p2: "value_of [''m'' \<mapsto> (1::rat), ''k'' \<mapsto> 2] [] (Input ''m'') = Inr 1"
    and p3: "value_of [''m'' \<mapsto> (1::rat), ''k'' \<mapsto> 2] [] (Input ''k'') = Inr 2"
    by simp_all
  note t = encrypt_pow5_rounds
    [OF disjI1 [OF refl] p1 p2 p3, of "\<lparr>params = [7, 9], id_MiMC = BN254\<rparr>"]
  have e: "evaluate [''m'' \<mapsto> (1::rat), ''k'' \<mapsto> 2]
      (snd (encryptBN256 [] \<lparr>params = [7, 9], id_MiMC = BN254\<rparr> (Input ''m'') (Input ''k'')))
      (fst (encryptBN256 [] \<lparr>params = [7, 9], id_MiMC = BN254\<rparr> (Input ''m'') (Input ''k'')))
     = Inr (((1 + 2 + 7) ^ 5 + 2 + 9) ^ 5 + 2)"
    using t [THEN conjunct2, THEN conjunct2, THEN conjunct2, THEN conjunct2]
    by (simp add: pow5_native_def)
  have g: "encryptBN256 [] \<lparr>params = [7, 9], id_MiMC = BN254\<rparr> (Input ''m'') (Input ''k'')
     = (Wire 8,
        [AddGate [Input ''m'', Input ''k'', Constant 7],
         MulGate (Wire 0) (Wire 0), MulGate (Wire 1) (Wire 1), MulGate (Wire 2) (Wire 0),
         AddGate [Wire 3, Input ''k'', Constant 9],
         MulGate (Wire 4) (Wire 4), MulGate (Wire 5) (Wire 5), MulGate (Wire 6) (Wire 4),
         AddGate [Wire 7, Input ''k'']])"
    using t [THEN conjunct1]
    by (simp add: pow5_gates_def pow5_round_gates_def eval_nat_numeral)
  show ?thesis by (rule conjI [OF e g])
qed

section \<open>Properties of the inverse-policy encryption\<close>

lemma encryptBLS377_rounds_gates:
  "encryptBLS377_rounds cs ps res key =
     (fst (inv_rounds_gates (length cs) res key ps),
      cs @ snd (inv_rounds_gates (length cs) res key ps))"
proof (induction ps arbitrary: cs res)
  case Nil
  show ?case by simp
next
  case (Cons c ps)
  show ?case
    by (simp add: cs_Add_def cs_Inverse_def Cons.IH inv_round_gates_def split_def Let_def
          eval_nat_numeral)
qed

lemma encryptBLS377_gates:
  "encryptBLS377 cs h message key =
     (fst (inv_gates (length cs) message key (params h)),
      cs @ snd (inv_gates (length cs) message key (params h)))"
  by (simp add: encryptBLS377_def encryptBLS377_rounds_gates inv_gates_def cs_Add_def
        split_def Let_def)

lemma inv_rounds_gates_counts:
  "length (snd (inv_rounds_gates n acc key ps)) = 2 * length ps
   \<and> length (filter is_AddGate (snd (inv_rounds_gates n acc key ps))) = length ps
   \<and> length (filter is_InverseGate (snd (inv_rounds_gates n acc key ps))) = length ps"
  by (induction ps arbitrary: n acc) (simp_all add: split_def Let_def inv_round_gates_def)

lemma inv_gates_counts:
  "length (snd (inv_gates n message key ps)) = 2 * length ps + 1
   \<and> length (filter is_AddGate (snd (inv_gates n message key ps))) = length ps + 1
   \<and> length (filter is_InverseGate (snd (inv_gates n message key ps))) = length ps"
  using inv_rounds_gates_counts [of n message key ps]
  by (simp add: inv_gates_def split_def Let_def)

lemma eval_InverseGate:
  "value_of inp ws a = Inr x \<Longrightarrow>
   eval_gate inp ws (InverseGate a) = (if x = 0 then Inl Unsatisfied else Inr (inverse x))"
  by simp

lemma inv_round_solve:
  assumes "value_of inp ws acc = Inr a" and "value_of inp ws key = Inr k"
  shows "solve inp ws (inv_round_gates (length ws) acc key c)
          = (if a + of_int c + k = 0 then Inl Unsatisfied
             else Inr (ws @ [a + of_int c + k, inverse (a + of_int c + k)]))"
  using assms
  by (simp add: inv_round_gates_def nth_append Let_def add.assoc)

lemma inv_rounds_solve:
  assumes "value_of inp ws acc = Inr a" and "value_of inp ws key = Inr k"
  shows "case inv_rounds_native k a ps of
           Inl e \<Rightarrow> solve inp ws (snd (inv_rounds_gates (length ws) acc key ps)) = Inl e
         | Inr r \<Rightarrow> (\<exists>ws'. solve inp ws (snd (inv_rounds_gates (length ws) acc key ps))
                            = Inr (ws @ ws')
                        \<and> value_of inp (ws @ ws') (fst (inv_rounds_gates (length ws) acc key ps))
                            = Inr r)"
  using assms
proof (induction ps arbitrary: ws acc a)
  case Nil
  then show ?case by simp
next
  case (Cons c ps)
  let ?t = "a + of_int c + k"
  show ?case
  proof (cases "?t = 0")
    case True
    then show ?thesis
      using inv_round_solve [OF Cons.prems, of c]
      by (simp add: split_def Let_def solve_append)
  next
    case False
    let ?ws1 = "ws @ [?t, inverse ?t]"
    have s1: "solve inp ws (inv_round_gates (length ws) acc key c) = Inr ?ws1"
      using inv_round_solve [OF Cons.prems, of c] False by simp
    have acc1: "value_of inp ?ws1 (Wire (length ws + 1)) = Inr (inverse ?t)"
      by (simp add: nth_append)
    have key1: "value_of inp ?ws1 key = Inr k"
      using Cons.prems(2) by (rule value_of_append)
    have len1: "length ?ws1 = length ws + 2" by simp
    note ih = Cons.IH [OF acc1 key1, unfolded len1]
    show ?thesis
    proof (cases "inv_rounds_native k (inverse ?t) ps")
      case (Inl e)
      then show ?thesis
        using ih s1 False by (simp add: split_def Let_def solve_append)
    next
      case (Inr r)
      with ih obtain ws' where
        "solve inp ?ws1 (snd (inv_rounds_gates (length ws + 2) (Wire (length ws + 1)) key ps))
           = Inr (?ws1 @ ws')"
        "value_of inp (?ws1 @ ws')
           (fst (inv_rounds_gates (length ws + 2) (Wire (length ws + 1)) key ps)) = Inr r"
        by auto
      then show ?thesis
        using s1 False Inr
        by (auto simp: split_def Let_def solve_append intro!: exI [of _ "[?t, inverse ?t] @ ws'"])
    qed
  qed
qed

lemma inv_gates_evaluate:
  assumes cs: "solve inp [] cs = Inr ws"
      and m: "value_of inp ws message = Inr m"
      and k: "value_of inp ws key = Inr k"
  shows "evaluate inp (cs @ snd (inv_gates (length cs) message key ps))
           (fst (inv_gates (length cs) message key ps)) = inv_native m k ps"
proof -
  have len: "length ws = length cs"
    using solve_length [OF cs] by simp
  note r = inv_rounds_solve [OF m k, of ps]
  show ?thesis
  proof (cases "inv_rounds_native k m ps")
    case (Inl e)
    then show ?thesis
      using r cs
      by (simp add: evaluate_def inv_gates_def split_def Let_def solve_append len [symmetric]
            inv_native_def)
  next
    case (Inr x)
    with r obtain ws' where
      s: "solve inp ws (snd (inv_rounds_gates (length ws) message key ps)) = Inr (ws @ ws')"
      and v: "value_of inp (ws @ ws') (fst (inv_rounds_gates (length ws) message key ps)) = Inr x"
      by auto
    have len': "length ws' = length (snd (inv_rounds_gates (length ws) message key ps))"
      using solve_length [OF s] by simp
    have k': "value_of inp (ws @ ws') key = Inr k"
      using k by (rule value_of_append)
    show ?thesis
      using cs s v k' len' Inr
      by (simp add: evaluate_def inv_gates_def split_def Let_def solve_append len [symmetric]
            inv_native_def nth_append)
  qed
qed

text \<open>
  What the source decides for BLS12-377: the call appends, per round constant in order,
  one addition gate for \<open>t = acc + c + key\<close> and exactly one inversion gate on \<open>t\<close>, then
  one addition gate that adds the key, and the function has no case of its own for
  \<open>t = 0\<close>. The value of a round at \<open>t = 0\<close> is therefore whatever the builder's inversion
  gate gives for zero. With the gate as \<open>eval_gate\<close> has it (the constraint \<open>t * r = 1\<close> is
  enforced, sections 4.2 and 7 of the specification) the returned variable has the value
  of \<open>inv_native\<close>: the iterated inverse plus the key while every \<open>t\<close> is nonzero, and no
  value (\<open>Unsatisfied\<close>) once a round has \<open>t = 0\<close>. Section 4.3 of the specification asks
  for round output 0 there instead; the inversion primitive itself is defined in package
  \<^verbatim>\<open>frontend\<close>, so the source of this file settles neither reading.
\<close>

lemma encryptBLS377_enforcing_gate:
  assumes "solve inp [] cs = Inr ws"
      and "value_of inp ws message = Inr m"
      and "value_of inp ws key = Inr k"
  shows "encryptBLS377 cs h message key =
           (fst (inv_gates (length cs) message key (params h)),
            cs @ snd (inv_gates (length cs) message key (params h)))
         \<and> length (filter is_InverseGate (snd (inv_gates (length cs) message key (params h))))
             = length (params h)
         \<and> length (filter is_AddGate (snd (inv_gates (length cs) message key (params h))))
             = length (params h) + 1
         \<and> length (snd (inv_gates (length cs) message key (params h)))
             = 2 * length (params h) + 1
         \<and> evaluate inp (snd (encryptBLS377 cs h message key))
              (fst (encryptBLS377 cs h message key))
             = inv_native m k (params h)"
  using inv_gates_counts [of "length cs" message key "params h"]
        inv_gates_evaluate [OF assms, of "params h"]
  by (simp add: encryptBLS377_gates)

text \<open>
  The smallest instance with \<open>t = 0\<close>: message, key and the single round constant are
  all zero. Under the enforcing gate the evaluation gives no value.
\<close>

lemma encryptBLS377_zero_enforcing_gate:
  "evaluate [''m'' \<mapsto> (0::rat), ''k'' \<mapsto> 0]
     (snd (encryptBLS377 [] \<lparr>params = [0], id_MiMC = BLS12_377\<rparr> (Input ''m'') (Input ''k'')))
     (fst (encryptBLS377 [] \<lparr>params = [0], id_MiMC = BLS12_377\<rparr> (Input ''m'') (Input ''k'')))
   = Inl Unsatisfied"
  by (simp add: encryptBLS377_def evaluate_def cs_Add_def cs_Inverse_def)

section \<open>Properties of the dispatch tables and the constructors\<close>

lemma call_step_globals: "fst (call_step s c) = fst s"
  by (cases s; cases c) simp_all

lemma calls_globals: "fst (foldl call_step s calls) = fst s"
  by (induction calls arbitrary: s) (simp_all add: call_step_globals)

lemma init_encryptFuncs:
  "encryptFuncs (init NewParams ToBigIntRegular g) =
     [BN254 \<mapsto> encryptBN256, BLS12_381 \<mapsto> encryptBLS381, BLS12_377 \<mapsto> encryptBLS377,
      BW6_761 \<mapsto> encryptBW761]"
  by (simp add: init_def)

lemma init_newMimc:
  "newMimc (init NewParams ToBigIntRegular g) =
     [BN254 \<mapsto> newMimcBN256 NewParams ToBigIntRegular,
      BLS12_381 \<mapsto> newMimcBLS381 NewParams ToBigIntRegular,
      BLS12_377 \<mapsto> newMimcBLS377 NewParams ToBigIntRegular,
      BW6_761 \<mapsto> newMimcBW761 NewParams ToBigIntRegular]"
  by (simp add: init_def)

text \<open>
  Claim C10. After \<^verbatim>\<open>init\<close> each of the two tables has entries for exactly the four
  identifiers BN254, BLS12-381, BLS12-377 and BW6-761; the three other registered
  identifiers have no constructor and no encryption function; and whatever calls of the
  file's other functions follow, the tables stay as \<^verbatim>\<open>init\<close> left them.
\<close>

theorem tables_after_init:
  "dom (encryptFuncs (init NewParams ToBigIntRegular g)) = {BN254, BLS12_381, BLS12_377, BW6_761}
   \<and> dom (newMimc (init NewParams ToBigIntRegular g)) = {BN254, BLS12_381, BLS12_377, BW6_761}
   \<and> encryptFuncs (init NewParams ToBigIntRegular g) BLS24_317 = None
   \<and> encryptFuncs (init NewParams ToBigIntRegular g) BLS24_315 = None
   \<and> encryptFuncs (init NewParams ToBigIntRegular g) BW6_633 = None
   \<and> newMimc (init NewParams ToBigIntRegular g) BLS24_317 = None
   \<and> newMimc (init NewParams ToBigIntRegular g) BLS24_315 = None
   \<and> newMimc (init NewParams ToBigIntRegular g) BW6_633 = None
   \<and> fst (foldl call_step (init NewParams ToBigIntRegular g, cs) calls)
       = init NewParams ToBigIntRegular g"
  by (auto simp: init_encryptFuncs init_newMimc calls_globals)

lemma foldl_append_params:
  "foldl (\<lambda>res v. res\<lparr>params := params res @ [f v]\<rparr>) r xs
     = r\<lparr>params := params r @ map f xs\<rparr>"
  by (induction xs arbitrary: r) simp_all

lemma newMimcBN256_eq:
  "newMimcBN256 NewParams ToBigIntRegular seed =
     \<lparr>params = map (ToBigIntRegular bn254) (NewParams bn254 seed), id_MiMC = BN254\<rparr>"
  by (simp add: newMimcBN256_def foldl_append_params)

lemma newMimcBLS381_eq:
  "newMimcBLS381 NewParams ToBigIntRegular seed =
     \<lparr>params = map (ToBigIntRegular bls12_381) (NewParams bls12_381 seed), id_MiMC = BLS12_381\<rparr>"
  by (simp add: newMimcBLS381_def foldl_append_params)

lemma newMimcBLS377_eq:
  "newMimcBLS377 NewParams ToBigIntRegular seed =
     \<lparr>params = map (ToBigIntRegular bls12_377) (NewParams bls12_377 seed), id_MiMC = BLS12_377\<rparr>"
  by (simp add: newMimcBLS377_def foldl_append_params)

lemma newMimcBW761_eq:
  "newMimcBW761 NewParams ToBigIntRegular seed =
     \<lparr>params = map (ToBigIntRegular bw6_761) (NewParams bw6_761 seed), id_MiMC = BW6_761\<rparr>"
  by (simp add: newMimcBW761_def foldl_append_params)

text \<open>
  Claim C6. Two MiMC states built by the constructor registered for the same identifier
  from the same seed, each after its own \<^verbatim>\<open>init\<close>, hold the same round constants, namely
  the converted constants of that curve's \<^verbatim>\<open>NewParams(seed)\<close> in order, and carry that
  identifier; the encryption functions registered for the identifier, applied to them
  with the same builder, message and key, return the same variable and the same gates.
\<close>

theorem mimc_deterministic:
  assumes "newMimc (init NewParams ToBigIntRegular g1) i = Some mk1"
      and "newMimc (init NewParams ToBigIntRegular g2) i = Some mk2"
      and "encryptFuncs (init NewParams ToBigIntRegular g1) i = Some enc1"
      and "encryptFuncs (init NewParams ToBigIntRegular g2) i = Some enc2"
  shows "params (mk1 seed) = params (mk2 seed)
         \<and> (\<exists>c. mimc_package i = Some c
                \<and> params (mk1 seed) = map (ToBigIntRegular c) (NewParams c seed))
         \<and> id_MiMC (mk1 seed) = i \<and> id_MiMC (mk2 seed) = i
         \<and> enc1 cs (mk1 seed) message key = enc2 cs (mk2 seed) message key"
  using assms
  by (auto simp: init_encryptFuncs init_newMimc mimc_package_def
        newMimcBN256_eq newMimcBLS381_eq newMimcBLS377_eq newMimcBW761_eq
        split: if_splits)

theorem mimc_deterministic_witness:
  "newMimc (init (\<lambda>c s. [1, 2, 3 :: nat]) (\<lambda>c x. int x)
       \<lparr>encryptFuncs = Map.empty, newMimc = Map.empty\<rparr>) BN254
     = Some (newMimcBN256 (\<lambda>c s. [1, 2, 3 :: nat]) (\<lambda>c x. int x))
   \<and> encryptFuncs (init (\<lambda>c s. [1, 2, 3 :: nat]) (\<lambda>c x. int x)
       \<lparr>encryptFuncs = Map.empty, newMimc = Map.empty\<rparr>) BN254
     = Some encryptBN256
   \<and> params (newMimcBN256 (\<lambda>c s. [1, 2, 3 :: nat]) (\<lambda>c x. int x) ''seed'') = [1, 2, 3]
   \<and> id_MiMC (newMimcBN256 (\<lambda>c s. [1, 2, 3 :: nat]) (\<lambda>c x. int x) ''seed'') = BN254"
proof -
  have n: "newMimc (init (\<lambda>c s. [1, 2, 3 :: nat]) (\<lambda>c x. int x)
       \<lparr>encryptFuncs = Map.empty, newMimc = Map.empty\<rparr>) BN254
     = Some (newMimcBN256 (\<lambda>c s. [1, 2, 3 :: nat]) (\<lambda>c x. int x))"
    by (simp add: init_def)
  have e: "encryptFuncs (init (\<lambda>c s. [1, 2, 3 :: nat]) (\<lambda>c x. int x)
       \<lparr>encryptFuncs = Map.empty, newMimc = Map.empty\<rparr>) BN254
     = Some encryptBN256"
    by (simp add: init_def)
  note t = mimc_deterministic [OF n n e e, of "''seed''" "[]" "Input ''m''" "Input ''k''"]
  have p: "params (newMimcBN256 (\<lambda>c s. [1, 2, 3 :: nat]) (\<lambda>c x. int x) ''seed'') = [1, 2, 3]"
    using t [THEN conjunct2, THEN conjunct1] by (auto simp: mimc_package_def)
  have i: "id_MiMC (newMimcBN256 (\<lambda>c s. [1, 2, 3 :: nat]) (\<lambda>c x. int x) ''seed'') = BN254"
    using t [THEN conjunct2, THEN conjunct2, THEN conjunct1] .
  show ?thesis using n e p i by (intro conjI)
qed

section \<open>Properties of the quadratic extension gadget\<close>

lemma Fp2Elmt_Mul_gates:
  "Fp2Elmt_Mul cs e1 e2 ext =
     (\<lparr>X = Wire (length cs + 8), Y = Wire (length cs + 6)\<rparr>,
      cs @ [MulGate (X e1) (X e2), MulGate (Y e1) (Y e2),
            AddGate [X e1, Y e1], AddGate [X e2, Y e2],
            MulGate (Wire (length cs + 2)) (Wire (length cs + 3)),
            SubGate (Wire (length cs + 4)) (Wire (length cs)),
            SubGate (Wire (length cs + 5)) (Wire (length cs + 1)),
            ScalarMulGate (uSquare ext) (Wire (length cs + 1)),
            AddGate [Wire (length cs), Wire (length cs + 7)]])"
  by (simp add: Fp2Elmt_Mul_def cs_Mul_def cs_Add_def cs_Sub_def cs_ScalarMul_def Let_def
        eval_nat_numeral)

lemma Fp2Elmt_Inverse_gates:
  "Fp2Elmt_Inverse cs e1 ext =
     (\<lparr>X = Wire (length cs + 5), Y = Wire (length cs + 7)\<rparr>,
      cs @ [MulGate (X e1) (X e1), MulGate (Y e1) (Y e1),
            ScalarMulGate (uSquare ext) (Wire (length cs + 1)),
            SubGate (Wire (length cs)) (Wire (length cs + 2)),
            InverseGate (Wire (length cs + 3)),
            MulGate (X e1) (Wire (length cs + 4)),
            SubGate (Constant 0) (Y e1),
            MulGate (Wire (length cs + 6)) (Wire (length cs + 4))])"
  by (simp add: Fp2Elmt_Inverse_def cs_Mul_def cs_Inverse_def cs_Sub_def cs_ScalarMul_def Let_def
        eval_nat_numeral)

lemma Fp2Elmt_Mul_solve:
  assumes "value_of inp ws (X e1) = Inr a0" and "value_of inp ws (Y e1) = Inr a1"
      and "value_of inp ws (X e2) = Inr b0" and "value_of inp ws (Y e2) = Inr b1"
      and "n = length ws"
  shows "solve inp ws
          [MulGate (X e1) (X e2), MulGate (Y e1) (Y e2),
            AddGate [X e1, Y e1], AddGate [X e2, Y e2],
            MulGate (Wire (n + 2)) (Wire (n + 3)),
            SubGate (Wire (n + 4)) (Wire n),
            SubGate (Wire (n + 5)) (Wire (n + 1)),
            ScalarMulGate c (Wire (n + 1)),
            AddGate [Wire n, Wire (n + 7)]]
         = Inr (ws @ [a0 * b0, a1 * b1, a0 + a1, b0 + b1, (a0 + a1) * (b0 + b1),
                 (a0 + a1) * (b0 + b1) - a0 * b0,
                 (a0 + a1) * (b0 + b1) - a0 * b0 - a1 * b1,
                 of_int c * (a1 * b1),
                 a0 * b0 + of_int c * (a1 * b1)])"
  using assms
  by (simp add: value_of_append nth_append)


lemma Fp2Elmt_Mul_values:
  assumes cs: "solve inp [] cs = Inr ws"
      and v: "value_of inp ws (X e1) = Inr a0" "value_of inp ws (Y e1) = Inr a1"
             "value_of inp ws (X e2) = Inr b0" "value_of inp ws (Y e2) = Inr b1"
  shows "\<exists>ws'. solve inp [] (snd (Fp2Elmt_Mul cs e1 e2 ext)) = Inr (ws @ ws')
           \<and> value_of inp (ws @ ws') (X (fst (Fp2Elmt_Mul cs e1 e2 ext)))
               = Inr (a0 * b0 + of_int (uSquare ext) * a1 * b1)
           \<and> value_of inp (ws @ ws') (Y (fst (Fp2Elmt_Mul cs e1 e2 ext)))
               = Inr (a1 * b0 + a0 * b1)"
proof -
  have len: "length cs = length ws"
    using solve_length [OF cs] by simp
  note s = Fp2Elmt_Mul_solve [OF v len, of "uSquare ext"]
  show ?thesis
    unfolding Fp2Elmt_Mul_gates
    apply (rule exI [of _ "[a0 * b0, a1 * b1, a0 + a1, b0 + b1, (a0 + a1) * (b0 + b1),
                 (a0 + a1) * (b0 + b1) - a0 * b0,
                 (a0 + a1) * (b0 + b1) - a0 * b0 - a1 * b1,
                 of_int (uSquare ext) * (a1 * b1),
                 a0 * b0 + of_int (uSquare ext) * (a1 * b1)]"])
    using cs s
    by (simp add: solve_append len nth_append algebra_simps)
qed

text \<open>
  Claim C5. For operands whose coordinates have the values \<open>(a0, a1)\<close> and \<open>(b0, b1)\<close>
  under an assignment that satisfies the gates emitted before, and every non-residue
  \<open>n\<close>, the gates the multiplication gadget emits evaluate to the product in the extension
  field: \<open>(a0 * b0 + n * a1 * b1, a1 * b0 + a0 * b1)\<close>. The base field is arbitrary. The
  instance \<open>n = 5\<close>, \<open>a = (3, 4)\<close>, \<open>b = (1, 2)\<close> with result \<open>(43, 10)\<close> follows it.
\<close>

theorem Fp2Elmt_Mul_correct:
  assumes "solve inp [] cs = Inr ws"
      and "value_of inp ws (X e1) = Inr a0" and "value_of inp ws (Y e1) = Inr a1"
      and "value_of inp ws (X e2) = Inr b0" and "value_of inp ws (Y e2) = Inr b1"
  shows "evaluate inp (snd (Fp2Elmt_Mul cs e1 e2 ext)) (X (fst (Fp2Elmt_Mul cs e1 e2 ext)))
           = Inr (a0 * b0 + of_int (uSquare ext) * a1 * b1)
         \<and> evaluate inp (snd (Fp2Elmt_Mul cs e1 e2 ext)) (Y (fst (Fp2Elmt_Mul cs e1 e2 ext)))
           = Inr (a1 * b0 + a0 * b1)"
  using Fp2Elmt_Mul_values [OF assms, of ext]
  by (auto simp: evaluate_def)

theorem Fp2Elmt_Mul_correct_witness:
  "evaluate [''a0'' \<mapsto> (3::rat), ''a1'' \<mapsto> 4, ''b0'' \<mapsto> 1, ''b1'' \<mapsto> 2]
      (snd (Fp2Elmt_Mul [] \<lparr>X = Input ''a0'', Y = Input ''a1''\<rparr>
              \<lparr>X = Input ''b0'', Y = Input ''b1''\<rparr> \<lparr>uSquare = 5\<rparr>))
      (X (fst (Fp2Elmt_Mul [] \<lparr>X = Input ''a0'', Y = Input ''a1''\<rparr>
              \<lparr>X = Input ''b0'', Y = Input ''b1''\<rparr> \<lparr>uSquare = 5\<rparr>)))
     = Inr 43
   \<and> evaluate [''a0'' \<mapsto> (3::rat), ''a1'' \<mapsto> 4, ''b0'' \<mapsto> 1, ''b1'' \<mapsto> 2]
      (snd (Fp2Elmt_Mul [] \<lparr>X = Input ''a0'', Y = Input ''a1''\<rparr>
              \<lparr>X = Input ''b0'', Y = Input ''b1''\<rparr> \<lparr>uSquare = 5\<rparr>))
      (Y (fst (Fp2Elmt_Mul [] \<lparr>X = Input ''a0'', Y = Input ''a1''\<rparr>
              \<lparr>X = Input ''b0'', Y = Input ''b1''\<rparr> \<lparr>uSquare = 5\<rparr>)))
     = Inr 10"
  using Fp2Elmt_Mul_correct
    [of "[''a0'' \<mapsto> (3::rat), ''a1'' \<mapsto> 4, ''b0'' \<mapsto> 1, ''b1'' \<mapsto> 2]" "[]" "[]"
        "\<lparr>X = Input ''a0'', Y = Input ''a1''\<rparr>" 3 4
        "\<lparr>X = Input ''b0'', Y = Input ''b1''\<rparr>" 1 2 "\<lparr>uSquare = 5\<rparr>"]
  by simp

lemma Fp2Elmt_Inverse_solve:
  assumes "value_of inp ws (X e1) = Inr a0" and "value_of inp ws (Y e1) = Inr a1"
      and "n = length ws"
      and "a0 * a0 - of_int c * (a1 * a1) \<noteq> 0"
  shows "solve inp ws
          [MulGate (X e1) (X e1), MulGate (Y e1) (Y e1),
            ScalarMulGate c (Wire (n + 1)),
            SubGate (Wire n) (Wire (n + 2)),
            InverseGate (Wire (n + 3)),
            MulGate (X e1) (Wire (n + 4)),
            SubGate (Constant 0) (Y e1),
            MulGate (Wire (n + 6)) (Wire (n + 4))]
         = Inr (ws @ [a0 * a0, a1 * a1, of_int c * (a1 * a1),
                 a0 * a0 - of_int c * (a1 * a1),
                 inverse (a0 * a0 - of_int c * (a1 * a1)),
                 a0 * inverse (a0 * a0 - of_int c * (a1 * a1)),
                 - a1,
                 - a1 * inverse (a0 * a0 - of_int c * (a1 * a1))])"
  using assms
  by (simp add: value_of_append nth_append Let_def)

lemma Fp2Elmt_Inverse_values:
  assumes cs: "solve inp [] cs = Inr ws"
      and v: "value_of inp ws (X e1) = Inr a0" "value_of inp ws (Y e1) = Inr a1"
      and d: "a0 * a0 - of_int (uSquare ext) * (a1 * a1) \<noteq> 0"
  shows "\<exists>ws'. solve inp [] (snd (Fp2Elmt_Inverse cs e1 ext)) = Inr (ws @ ws')
           \<and> value_of inp (ws @ ws') (X (fst (Fp2Elmt_Inverse cs e1 ext)))
               = Inr (a0 * inverse (a0 * a0 - of_int (uSquare ext) * (a1 * a1)))
           \<and> value_of inp (ws @ ws') (Y (fst (Fp2Elmt_Inverse cs e1 ext)))
               = Inr (- a1 * inverse (a0 * a0 - of_int (uSquare ext) * (a1 * a1)))"
proof -
  have len: "length cs = length ws"
    using solve_length [OF cs] by simp
  note s = Fp2Elmt_Inverse_solve [OF v len d]
  show ?thesis
    unfolding Fp2Elmt_Inverse_gates
    apply (rule exI [of _ "[a0 * a0, a1 * a1, of_int (uSquare ext) * (a1 * a1),
                 a0 * a0 - of_int (uSquare ext) * (a1 * a1),
                 inverse (a0 * a0 - of_int (uSquare ext) * (a1 * a1)),
                 a0 * inverse (a0 * a0 - of_int (uSquare ext) * (a1 * a1)),
                 - a1,
                 - a1 * inverse (a0 * a0 - of_int (uSquare ext) * (a1 * a1))]"])
    using cs s
    by (simp add: solve_append len nth_append)
qed

lemma norm_nonzero:
  fixes a0 a1 n :: "'f::field"
  assumes nz: "a0 \<noteq> 0 \<or> a1 \<noteq> 0" and nr: "\<forall>x. x * x \<noteq> n"
  shows "a0 * a0 - n * (a1 * a1) \<noteq> 0"
proof
  assume z: "a0 * a0 - n * (a1 * a1) = 0"
  show False
  proof (cases "a1 = 0")
    case True
    with z nz show False by simp
  next
    case False
    from z have "a0 * a0 = n * (a1 * a1)" by simp
    with False have "(a0 / a1) * (a0 / a1) = n"
      by (simp add: field_simps)
    with nr show False by blast
  qed
qed

text \<open>
  Claim C9. Let \<open>n\<close> be a non-residue of the base field (no square equals it) and let the
  coordinates of \<open>e\<close> have the values \<open>(a0, a1)\<close>, not both zero, under an assignment that
  satisfies the gates emitted before. Then the gates of \<^verbatim>\<open>Inverse\<close> followed by those of
  \<^verbatim>\<open>Mul\<close> applied to the inverse and \<open>e\<close> are satisfied, and the product evaluates to the
  identity \<open>(1, 0)\<close>.
\<close>

theorem Fp2Elmt_Inverse_Mul:
  assumes cs: "solve inp [] cs = Inr ws"
      and v: "value_of inp ws (X e) = Inr a0" "value_of inp ws (Y e) = Inr a1"
      and nz: "a0 \<noteq> 0 \<or> a1 \<noteq> 0"
      and nr: "\<forall>x::'f::field. x * x \<noteq> of_int (uSquare ext)"
      and i: "Fp2Elmt_Inverse cs e ext = (ei, cs1)"
      and m: "Fp2Elmt_Mul cs1 ei e ext = (r, cs2)"
  shows "evaluate inp cs2 (X r) = Inr (1::'f) \<and> evaluate inp cs2 (Y r) = Inr 0"
proof -
  let ?d = "a0 * a0 - of_int (uSquare ext) * (a1 * a1)"
  have d: "?d \<noteq> 0"
    using nz nr by (rule norm_nonzero)
  obtain ws' where
    s1: "solve inp [] cs1 = Inr (ws @ ws')"
    and x1: "value_of inp (ws @ ws') (X ei) = Inr (a0 * inverse ?d)"
    and y1: "value_of inp (ws @ ws') (Y ei) = Inr (- a1 * inverse ?d)"
    using Fp2Elmt_Inverse_values [OF cs v d] i by auto
  have v': "value_of inp (ws @ ws') (X e) = Inr a0" "value_of inp (ws @ ws') (Y e) = Inr a1"
    using v by (simp_all add: value_of_append)
  have "?d * inverse ?d = 1"
    using d by simp
  then have one: "a0 * inverse ?d * a0 + of_int (uSquare ext) * (- a1 * inverse ?d) * a1 = 1"
    by (simp add: algebra_simps)
  have zero: "- a1 * inverse ?d * a0 + a0 * inverse ?d * a1 = 0"
    by (simp add: algebra_simps)
  show ?thesis
    using Fp2Elmt_Mul_values [OF s1 x1 y1 v', of ext] m one zero
    by (auto simp: evaluate_def)
qed

theorem Fp2Elmt_Inverse_Mul_witness:
  "evaluate [''a0'' \<mapsto> (3::rat), ''a1'' \<mapsto> 4]
      (snd (Fp2Elmt_Mul (snd (Fp2Elmt_Inverse [] \<lparr>X = Input ''a0'', Y = Input ''a1''\<rparr>
                                \<lparr>uSquare = - 1\<rparr>))
              (fst (Fp2Elmt_Inverse [] \<lparr>X = Input ''a0'', Y = Input ''a1''\<rparr> \<lparr>uSquare = - 1\<rparr>))
              \<lparr>X = Input ''a0'', Y = Input ''a1''\<rparr> \<lparr>uSquare = - 1\<rparr>))
      (X (fst (Fp2Elmt_Mul (snd (Fp2Elmt_Inverse [] \<lparr>X = Input ''a0'', Y = Input ''a1''\<rparr>
                                \<lparr>uSquare = - 1\<rparr>))
              (fst (Fp2Elmt_Inverse [] \<lparr>X = Input ''a0'', Y = Input ''a1''\<rparr> \<lparr>uSquare = - 1\<rparr>))
              \<lparr>X = Input ''a0'', Y = Input ''a1''\<rparr> \<lparr>uSquare = - 1\<rparr>)))
     = Inr 1
   \<and> evaluate [''a0'' \<mapsto> (3::rat), ''a1'' \<mapsto> 4]
      (snd (Fp2Elmt_Inverse [] \<lparr>X = Input ''a0'', Y = Input ''a1''\<rparr> \<lparr>uSquare = - 1\<rparr>))
      (X (fst (Fp2Elmt_Inverse [] \<lparr>X = Input ''a0'', Y = Input ''a1''\<rparr> \<lparr>uSquare = - 1\<rparr>)))
     = Inr (3 / 25)"
proof -
  let ?inp = "[''a0'' \<mapsto> (3::rat), ''a1'' \<mapsto> 4]"
  let ?e = "\<lparr>X = Input ''a0'', Y = Input ''a1''\<rparr>"
  let ?ext = "\<lparr>uSquare = - 1\<rparr>"
  have p1: "solve ?inp [] [] = Inr []"
    and p2: "value_of ?inp [] (X ?e) = Inr 3"
    and p3: "value_of ?inp [] (Y ?e) = Inr 4"
    and p4: "(3::rat) \<noteq> 0 \<or> (4::rat) \<noteq> 0"
    by simp_all
  have p5: "\<forall>x::rat. x * x \<noteq> of_int (uSquare ?ext)"
  proof
    fix x :: rat
    have "0 \<le> x * x" by simp
    then have "x * x \<noteq> - 1" by linarith
    then show "x * x \<noteq> of_int (uSquare ?ext)" by simp
  qed
  have p6: "Fp2Elmt_Inverse [] ?e ?ext
              = (fst (Fp2Elmt_Inverse [] ?e ?ext), snd (Fp2Elmt_Inverse [] ?e ?ext))"
    by simp
  have p7: "Fp2Elmt_Mul (snd (Fp2Elmt_Inverse [] ?e ?ext)) (fst (Fp2Elmt_Inverse [] ?e ?ext)) ?e ?ext
              = (fst (Fp2Elmt_Mul (snd (Fp2Elmt_Inverse [] ?e ?ext))
                       (fst (Fp2Elmt_Inverse [] ?e ?ext)) ?e ?ext),
                 snd (Fp2Elmt_Mul (snd (Fp2Elmt_Inverse [] ?e ?ext))
                       (fst (Fp2Elmt_Inverse [] ?e ?ext)) ?e ?ext))"
    by simp
  note t = Fp2Elmt_Inverse_Mul [OF p1 p2 p3 p4 p5 p6 p7]
  have v: "evaluate ?inp (snd (Fp2Elmt_Inverse [] ?e ?ext)) (X (fst (Fp2Elmt_Inverse [] ?e ?ext)))
             = Inr (3 / 25)"
    by (simp add: Fp2Elmt_Inverse_gates evaluate_def Let_def)
  show ?thesis by (rule conjI [OF t [THEN conjunct1] v])
qed

end
